theory Spec2Isabelle
  imports Main "HOL-Library.Multiset"
begin

section \<open>Python values, exceptions and the built-ins the tool uses\<close>

text \<open>
  The roll-call tool of \<^verbatim>\<open>wa_leg_mcp/tools/roll_call_tools.py\<close> is dynamically typed: the
  shim may hand it any value, and the envelope it returns is a nested dictionary. Values
  are therefore modelled by one datatype. A dictionary is an association list in insertion
  order with string keys (the first entry of a key is the one a lookup sees).

  A \<^typ>\<open>string\<close> stands for a Python \<^verbatim>\<open>str\<close> whose code points are all below 256: the
  character \<^term>\<open>c\<close> is the code point \<^term>\<open>of_char c :: nat\<close>. Floats, dates and other
  objects are outside the model, and so are the limits of the interpreter on memory and on
  the depth of recursion; its limit on the digits of a conversion between \<^verbatim>\<open>int\<close> and
  \<^verbatim>\<open>str\<close> is modelled.
\<close>

datatype pyval =
    PNone
  | PBool bool
  | PInt int
  | PStr string
  | PList "pyval list"
  | PDict "(string \<times> pyval) list"

text \<open>
  An exception is its class and its message (\<^verbatim>\<open>str(e)\<close>). The classes kept apart are
  the ones the handlers tell apart: \<open>ValueError\<close> (and its subclasses), the classes the
  built-ins used here raise, \<open>OtherException\<close> for any other subclass of
  \<^verbatim>\<open>Exception\<close>, and \<open>BaseExceptionOnly\<close> for a \<^verbatim>\<open>BaseException\<close> that is not an
  \<^verbatim>\<open>Exception\<close> (\<^verbatim>\<open>KeyboardInterrupt\<close>, \<^verbatim>\<open>SystemExit\<close>).
\<close>

datatype exn_class =
    ValueError | TypeError | AttributeError | IndexError | OtherException | BaseExceptionOnly

datatype py_exn = Raised exn_class string

fun exn_class_of :: "py_exn \<Rightarrow> exn_class" where
  "exn_class_of (Raised c m) = c"

fun exn_message :: "py_exn \<Rightarrow> string" where
  "exn_message (Raised c m) = m"

definition is_ValueError :: "py_exn \<Rightarrow> bool" where
  "is_ValueError e = (exn_class_of e = ValueError)"

definition is_Exception :: "py_exn \<Rightarrow> bool" where
  "is_Exception e = (exn_class_of e \<noteq> BaseExceptionOnly)"

text \<open>Sequencing of computations that may raise: the first exception wins.\<close>

definition bind_exn :: "py_exn + 'a \<Rightarrow> ('a \<Rightarrow> py_exn + 'b) \<Rightarrow> py_exn + 'b" where
  "bind_exn m f = (case m of Inl e \<Rightarrow> Inl e | Inr x \<Rightarrow> f x)"

fun map_exn :: "('a \<Rightarrow> py_exn + 'b) \<Rightarrow> 'a list \<Rightarrow> py_exn + 'b list" where
  "map_exn f [] = Inr []"
| "map_exn f (x # xs) =
     (case f x of
        Inl e \<Rightarrow> Inl e
      | Inr y \<Rightarrow> (case map_exn f xs of Inl e \<Rightarrow> Inl e | Inr ys \<Rightarrow> Inr (y # ys)))"

subsection \<open>Type names, truth value, length, iteration, dictionary lookup\<close>

fun type_name :: "pyval \<Rightarrow> string" where
  "type_name PNone = ''NoneType''"
| "type_name (PBool b) = ''bool''"
| "type_name (PInt i) = ''int''"
| "type_name (PStr s) = ''str''"
| "type_name (PList xs) = ''list''"
| "type_name (PDict d) = ''dict''"

definition sq :: "string \<Rightarrow> string" where
  "sq s = CHR 0x27 # s @ [CHR 0x27]"

fun py_truthy :: "pyval \<Rightarrow> bool" where
  "py_truthy PNone = False"
| "py_truthy (PBool b) = b"
| "py_truthy (PInt i) = (i \<noteq> 0)"
| "py_truthy (PStr s) = (s \<noteq> [])"
| "py_truthy (PList xs) = (xs \<noteq> [])"
| "py_truthy (PDict d) = (d \<noteq> [])"

fun py_len :: "pyval \<Rightarrow> py_exn + nat" where
  "py_len (PStr s) = Inr (length s)"
| "py_len (PList xs) = Inr (length xs)"
| "py_len (PDict d) = Inr (length d)"
| "py_len v = Inl (Raised TypeError (''object of type '' @ sq (type_name v) @ '' has no len()''))"

text \<open>\<^verbatim>\<open>for x in v\<close>: the elements of a list, the one-character strings of a string,
  the keys of a dictionary; anything else is not iterable.\<close>

fun py_iter :: "pyval \<Rightarrow> py_exn + pyval list" where
  "py_iter (PList xs) = Inr xs"
| "py_iter (PStr s) = Inr (map (\<lambda>c. PStr [c]) s)"
| "py_iter (PDict d) = Inr (map (\<lambda>kv. PStr (fst kv)) d)"
| "py_iter v = Inl (Raised TypeError (sq (type_name v) @ '' object is not iterable''))"

fun dict_get :: "(string \<times> pyval) list \<Rightarrow> string \<Rightarrow> pyval \<Rightarrow> pyval" where
  "dict_get [] k dflt = dflt"
| "dict_get ((k', v) # d) k dflt = (if k' = k then v else dict_get d k dflt)"

text \<open>\<^verbatim>\<open>v.get(k, dflt)\<close>: only a dictionary has the method.\<close>

fun py_get :: "pyval \<Rightarrow> string \<Rightarrow> pyval \<Rightarrow> py_exn + pyval" where
  "py_get (PDict d) k dflt = Inr (dict_get d k dflt)"
| "py_get v k dflt =
     Inl (Raised AttributeError (sq (type_name v) @ '' object has no attribute '' @ sq ''get''))"

subsection \<open>Character classes and string methods\<close>

text \<open>
  On code points below 256, \<^verbatim>\<open>str.isspace\<close> holds of U+0009..U+000D, U+001C..U+0020,
  U+0085 and U+00A0; \<^verbatim>\<open>str.isdigit\<close> holds of the ten decimal digits and of the
  superscripts U+00B2, U+00B3 and U+00B9; only the ten decimal digits are decimal, which
  is what \<^verbatim>\<open>int\<close> accepts.
\<close>

definition py_isspace :: "char \<Rightarrow> bool" where
  "py_isspace c =
     (let n = (of_char c :: nat)
      in (9 \<le> n \<and> n \<le> 13) \<or> (28 \<le> n \<and> n \<le> 32) \<or> n = 133 \<or> n = 160)"

definition py_isdecimal :: "char \<Rightarrow> bool" where
  "py_isdecimal c = (let n = (of_char c :: nat) in 48 \<le> n \<and> n \<le> 57)"

definition py_isdigit :: "char \<Rightarrow> bool" where
  "py_isdigit c =
     (let n = (of_char c :: nat) in (48 \<le> n \<and> n \<le> 57) \<or> n = 178 \<or> n = 179 \<or> n = 185)"

text \<open>\<^verbatim>\<open>s.strip()\<close>: the slice between the first and the last character that is not
  white space.\<close>

definition py_strip :: "string \<Rightarrow> string" where
  "py_strip s =
     (let i = length (takeWhile py_isspace s);
          j = length s - length (takeWhile py_isspace (rev s))
      in take (j - i) (drop i s))"

text \<open>\<^verbatim>\<open>s.split()\<close>: the maximal runs of characters that are not white space, in
  order. \<open>cur\<close> is the run being read.\<close>

fun split_ws :: "string \<Rightarrow> string \<Rightarrow> string list" where
  "split_ws cur [] = (if cur = [] then [] else [cur])"
| "split_ws cur (c # cs) =
     (if py_isspace c
      then (if cur = [] then split_ws [] cs else cur # split_ws [] cs)
      else split_ws (cur @ [c]) cs)"

definition py_split :: "string \<Rightarrow> string list" where
  "py_split s = split_ws [] s"

text \<open>\<^verbatim>\<open>xs[-1]\<close> raises on an empty list.\<close>

definition py_last :: "'a list \<Rightarrow> py_exn + 'a" where
  "py_last xs =
     (case xs of [] \<Rightarrow> Inl (Raised IndexError ''list index out of range'') | _ \<Rightarrow> Inr (last xs))"

text \<open>
  \<^verbatim>\<open>int(s)\<close> for an argument made of \<^verbatim>\<open>isdigit\<close> characters only, which is all the call
  site passes: it raises \<open>ValueError\<close> on the empty string, on a character that is not
  decimal, and on more digits than the interpreter's limit for conversions
  (\<^verbatim>\<open>sys.get_int_max_str_digits()\<close>, by default 4300, 0 for no limit, never checked up to
  640 digits); otherwise the value is read in base ten. The tool does not read the message
  of a \<open>ValueError\<close>; the messages here are abridged.
\<close>

definition digit_value :: "char \<Rightarrow> int" where
  "digit_value c = int (of_char c) - 48"

definition py_int :: "nat \<Rightarrow> string \<Rightarrow> py_exn + int" where
  "py_int max_str_digits s =
     (if s = [] \<or> \<not> list_all py_isdecimal s
      then Inl (Raised ValueError (''invalid literal for int() with base 10: '' @ sq s))
      else if 0 < max_str_digits \<and> max_str_digits < length s \<and> 640 < length s
      then Inl (Raised ValueError ''Exceeds the limit for integer string conversion'')
      else Inr (foldl (\<lambda>acc c. 10 * acc + digit_value c) 0 s))"

subsection \<open>Conversion to text\<close>

text \<open>The decimal digits of a natural number, most significant first. \<open>fuel\<close> bounds the
  recursion; \<open>Suc n\<close> is always enough for \<open>n\<close>.\<close>

fun nat_digits :: "nat \<Rightarrow> nat \<Rightarrow> string" where
  "nat_digits 0 n = []"
| "nat_digits (Suc fuel) n =
     (if n < 10 then [''0123456789'' ! n]
      else nat_digits fuel (n div 10) @ [''0123456789'' ! (n mod 10)])"

text \<open>
  \<^verbatim>\<open>str(i)\<close> and \<^verbatim>\<open>repr(i)\<close> of an integer: the interpreter's limit on the digits of a
  conversion holds in this direction too, with the same \<open>ValueError\<close> as in \<^verbatim>\<open>int(s)\<close>
  (the sign is not counted).
\<close>

definition int_str :: "nat \<Rightarrow> int \<Rightarrow> py_exn + string" where
  "int_str max_str_digits i =
     (let digits = nat_digits (Suc (nat \<bar>i\<bar>)) (nat \<bar>i\<bar>)
      in if 0 < max_str_digits \<and> max_str_digits < length digits \<and> 640 < length digits
         then Inl (Raised ValueError ''Exceeds the limit for integer string conversion'')
         else Inr (if i < 0 then CHR ''-'' # digits else digits))"

text \<open>
  \<^verbatim>\<open>repr\<close> of a string: single quotes, unless the string has a single quote and no double
  quote; the quote and the backslash are escaped, tab, line feed and carriage return have
  their letters, and every other character that is not printable (below U+0020, and
  U+007F..U+00A0, U+00AD) is written \<^verbatim>\<open>\xhh\<close>.
\<close>

definition hex2 :: "nat \<Rightarrow> string" where
  "hex2 n = [''0123456789abcdef'' ! (n div 16), ''0123456789abcdef'' ! (n mod 16)]"

definition repr_char :: "char \<Rightarrow> char \<Rightarrow> string" where
  "repr_char quote c =
     (let n = (of_char c :: nat)
      in if c = quote \<or> c = CHR 0x5C then [CHR 0x5C, c]
         else if n = 9 then [CHR 0x5C, CHR ''t'']
         else if n = 10 then [CHR 0x5C, CHR ''n'']
         else if n = 13 then [CHR 0x5C, CHR ''r'']
         else if n < 32 \<or> (127 \<le> n \<and> n \<le> 160) \<or> n = 173 then [CHR 0x5C, CHR ''x''] @ hex2 n
         else [c])"

definition repr_str :: "string \<Rightarrow> string" where
  "repr_str s =
     (let quote = (if CHR 0x27 \<in> set s \<and> CHR 0x22 \<notin> set s then CHR 0x22 else CHR 0x27)
      in quote # concat (map (repr_char quote) s) @ [quote])"

fun join_comma :: "string list \<Rightarrow> string" where
  "join_comma [] = []"
| "join_comma [x] = x"
| "join_comma (x # y # ys) = x @ '', '' @ join_comma (y # ys)"

text \<open>
  \<^verbatim>\<open>repr(v)\<close>. The elements of a list and the entries of a dictionary are converted from
  left to right, and the first integer beyond the limit ends the conversion with its
  \<open>ValueError\<close>.
\<close>

fun py_repr :: "nat \<Rightarrow> pyval \<Rightarrow> py_exn + string"
  and repr_items :: "nat \<Rightarrow> pyval list \<Rightarrow> py_exn + string list"
  and repr_pairs :: "nat \<Rightarrow> (string \<times> pyval) list \<Rightarrow> py_exn + string list" where
  "py_repr m PNone = Inr ''None''"
| "py_repr m (PBool b) = Inr (if b then ''True'' else ''False'')"
| "py_repr m (PInt i) = int_str m i"
| "py_repr m (PStr s) = Inr (repr_str s)"
| "py_repr m (PList xs) =
     (case repr_items m xs of
        Inl e \<Rightarrow> Inl e
      | Inr rs \<Rightarrow> Inr (''['' @ join_comma rs @ '']''))"
| "py_repr m (PDict d) =
     (case repr_pairs m d of
        Inl e \<Rightarrow> Inl e
      | Inr rs \<Rightarrow> Inr (''{'' @ join_comma rs @ ''}''))"
| "repr_items m [] = Inr []"
| "repr_items m (x # xs) =
     (case py_repr m x of
        Inl e \<Rightarrow> Inl e
      | Inr r \<Rightarrow> (case repr_items m xs of Inl e \<Rightarrow> Inl e | Inr rs \<Rightarrow> Inr (r # rs)))"
| "repr_pairs m [] = Inr []"
| "repr_pairs m (kv # d) =
     (case py_repr m (snd kv) of
        Inl e \<Rightarrow> Inl e
      | Inr r \<Rightarrow> (case repr_pairs m d of
                    Inl e \<Rightarrow> Inl e
                  | Inr rs \<Rightarrow> Inr ((repr_str (fst kv) @ '': '' @ r) # rs)))"

text \<open>\<^verbatim>\<open>str(v)\<close>: a string is itself, everything else is its \<^verbatim>\<open>repr\<close>.\<close>

definition py_str :: "nat \<Rightarrow> pyval \<Rightarrow> py_exn + string" where
  "py_str max_str_digits v = (case v of PStr s \<Rightarrow> Inr s | _ \<Rightarrow> py_repr max_str_digits v)"

subsection \<open>Comparison and \<^verbatim>\<open>list.sort\<close>\<close>

text \<open>A \<^verbatim>\<open>bool\<close> is an \<^verbatim>\<open>int\<close>: \<^verbatim>\<open>True == 1\<close> and \<^verbatim>\<open>False < 1\<close>.\<close>

fun int_like :: "pyval \<Rightarrow> int option" where
  "int_like (PInt i) = Some i"
| "int_like (PBool b) = Some (if b then 1 else 0)"
| "int_like v = None"

text \<open>\<^verbatim>\<open>a == b\<close> never raises on these values. Lists are equal elementwise; dictionaries
  are equal when they have as many keys and every entry of the one has an equal entry in
  the other, whatever the order.\<close>

fun py_eq :: "pyval \<Rightarrow> pyval \<Rightarrow> bool"
  and eq_items :: "pyval list \<Rightarrow> pyval list \<Rightarrow> bool"
  and eq_pairs :: "(string \<times> pyval) list \<Rightarrow> (string \<times> pyval) list \<Rightarrow> bool"
  and eq_entry :: "string \<Rightarrow> pyval \<Rightarrow> (string \<times> pyval) list \<Rightarrow> bool" where
  "py_eq PNone b = (b = PNone)"
| "py_eq (PBool x) b = (int_like b = Some (if x then 1 else 0))"
| "py_eq (PInt x) b = (int_like b = Some x)"
| "py_eq (PStr x) b = (b = PStr x)"
| "py_eq (PList xs) b = (case b of PList ys \<Rightarrow> eq_items xs ys | _ \<Rightarrow> False)"
| "py_eq (PDict d) b = (case b of PDict d' \<Rightarrow> length d = length d' \<and> eq_pairs d d' | _ \<Rightarrow> False)"
| "eq_items [] ys = (ys = [])"
| "eq_items (x # xs) ys = (case ys of [] \<Rightarrow> False | y # ys' \<Rightarrow> py_eq x y \<and> eq_items xs ys')"
| "eq_pairs [] d' = True"
| "eq_pairs (kv # d) d' = (eq_entry (fst kv) (snd kv) d' \<and> eq_pairs d d')"
| "eq_entry k v [] = False"
| "eq_entry k v (kv' # d') = (if fst kv' = k then py_eq v (snd kv') else eq_entry k v d')"

definition lt_unsupported :: "pyval \<Rightarrow> pyval \<Rightarrow> py_exn" where
  "lt_unsupported a b =
     Raised TypeError (''<'' @ '' not supported between instances of ''
                        @ sq (type_name a) @ '' and '' @ sq (type_name b))"

text \<open>
  \<^verbatim>\<open>a < b\<close>: numbers by value, strings by code points, lists by the first position where
  they are not equal (a proper prefix is smaller); any other pair raises \<open>TypeError\<close>.
\<close>

fun str_lt :: "string \<Rightarrow> string \<Rightarrow> bool" where
  "str_lt [] t = (t \<noteq> [])"
| "str_lt (c # s) [] = False"
| "str_lt (c # s) (d # t) =
     (if c = d then str_lt s t else (of_char c :: nat) < of_char d)"

fun py_lt :: "pyval \<Rightarrow> pyval \<Rightarrow> py_exn + bool"
  and lt_items :: "pyval list \<Rightarrow> pyval list \<Rightarrow> py_exn + bool" where
  "py_lt (PList xs) (PList ys) = lt_items xs ys"
| "py_lt (PStr s) (PStr t) = Inr (str_lt s t)"
| "py_lt a b =
     (case (int_like a, int_like b) of
        (Some i, Some j) \<Rightarrow> Inr (i < j)
      | _ \<Rightarrow> Inl (lt_unsupported a b))"
| "lt_items [] ys = Inr (ys \<noteq> [])"
| "lt_items (x # xs) [] = Inr False"
| "lt_items (x # xs) (y # ys) = (if py_eq x y then lt_items xs ys else py_lt x y)"

text \<open>
  \<^verbatim>\<open>xs.sort(key=f)\<close>: the keys are computed first, then the list is sorted by \<^verbatim>\<open><\<close> on
  the keys, stably, and an exception of a comparison ends the sort. The model inserts the
  elements from the right, each one before the first element whose key is not smaller;
  the only comparisons are \<^verbatim>\<open><\<close> between keys, the first one between the keys of the
  second and the first element, as in the interpreter. Which comparisons the interpreter
  makes after that depends on its merge strategy: where a comparison raises, the one
  reported may differ.
\<close>

fun insort_lt :: "pyval \<times> 'a \<Rightarrow> (pyval \<times> 'a) list \<Rightarrow> py_exn + (pyval \<times> 'a) list" where
  "insort_lt x [] = Inr [x]"
| "insort_lt x (y # ys) =
     (case py_lt (fst y) (fst x) of
        Inl e \<Rightarrow> Inl e
      | Inr True \<Rightarrow> (case insort_lt x ys of Inl e \<Rightarrow> Inl e | Inr r \<Rightarrow> Inr (y # r))
      | Inr False \<Rightarrow> Inr (x # y # ys))"

fun sort_lt :: "(pyval \<times> 'a) list \<Rightarrow> py_exn + (pyval \<times> 'a) list" where
  "sort_lt [] = Inr []"
| "sort_lt (x # xs) = (case sort_lt xs of Inl e \<Rightarrow> Inl e | Inr ys \<Rightarrow> insort_lt x ys)"

definition py_sort_by_key :: "('a \<Rightarrow> py_exn + pyval) \<Rightarrow> 'a list \<Rightarrow> py_exn + 'a list" where
  "py_sort_by_key key xs =
     (case map_exn key xs of
        Inl e \<Rightarrow> Inl e
      | Inr ks \<Rightarrow> (case sort_lt (zip ks xs) of Inl e \<Rightarrow> Inl e | Inr r \<Rightarrow> Inr (map snd r)))"

section \<open>The upstream access shim\<close>


section \<open>The roll-call tool\<close>

text \<open>
  What \<^verbatim>\<open>get_roll_calls\<close> (\<^verbatim>\<open>tools/roll_call_tools.py\<close>) takes from its surroundings:
  the resolver \<^verbatim>\<open>get_current_biennium\<close> of \<^verbatim>\<open>utils/formatters.py\<close>, the method
  \<^verbatim>\<open>get_roll_calls\<close> of the module-level \<^verbatim>\<open>wsl_client\<close> (which the tests replace by a
  mock that may raise), and the interpreter's limit on the digits of a conversion between
  \<^verbatim>\<open>int\<close> and \<^verbatim>\<open>str\<close>.
  Logging is not modelled. Its messages hold strings, the message of an exception, and at
  line 92 the integer that \<^verbatim>\<open>int\<close> has just returned, whose conversion to text cannot
  raise (lemma \<open>int_str_of_parsed\<close> below).
\<close>

record collaborators =
  get_current_biennium :: string
  wsl_client_get_roll_calls :: "string \<Rightarrow> int \<Rightarrow> py_exn + pyval"
  int_max_str_digits :: nat

subsection \<open>The envelopes\<close>

definition error_metadata :: pyval where
  "error_metadata =
     PDict [(''tool_name'', PStr ''get_roll_calls''), (''api_call'', PStr ''GetRollCalls'')]"

text \<open>Lines 80-88.\<close>

definition invalid_format_response :: "string \<Rightarrow> pyval" where
  "invalid_format_response bill_number =
     PDict [(''success'', PBool False),
            (''error'', PStr (''Invalid bill number format: '' @ bill_number
                              @ ''. Expected format: '' @ sq ''HB 1234'' @ '', ''
                              @ sq ''SB 5678'' @ '', or '' @ sq ''1234'')),
            (''error_type'', PStr ''validation''),
            (''metadata'', error_metadata)]"

text \<open>Lines 171-179.\<close>

definition invalid_number_response :: "string \<Rightarrow> pyval" where
  "invalid_number_response bill_number =
     PDict [(''success'', PBool False),
            (''error'', PStr (''Invalid bill number: '' @ bill_number
                              @ ''. Must be a valid number.'')),
            (''error_type'', PStr ''validation''),
            (''metadata'', error_metadata)]"

text \<open>Lines 182-190.\<close>

definition unexpected_response :: "py_exn \<Rightarrow> pyval" where
  "unexpected_response e =
     PDict [(''success'', PBool False),
            (''error'', PStr (''Failed to fetch roll calls: '' @ exn_message e)),
            (''error_type'', PStr ''unexpected''),
            (''metadata'', error_metadata)]"

text \<open>Lines 99-110.\<close>

definition no_roll_calls_response :: "string \<Rightarrow> string \<Rightarrow> pyval" where
  "no_roll_calls_response bill_number biennium =
     PDict [(''success'', PBool True),
            (''data'', PDict [(''bill_number'', PStr bill_number),
                              (''biennium'', PStr biennium),
                              (''roll_calls'', PList [])]),
            (''metadata'',
               PDict [(''message'', PStr (''No roll calls found for bill '' @ bill_number
                                          @ '' in biennium '' @ biennium)),
                      (''api_call'', PStr ''GetRollCalls'')])]"

text \<open>Lines 156-167.\<close>

definition success_response :: "string \<Rightarrow> string \<Rightarrow> pyval list \<Rightarrow> pyval" where
  "success_response bill_number biennium formatted_roll_calls =
     PDict [(''success'', PBool True),
            (''data'', PDict [(''bill_number'', PStr bill_number),
                              (''biennium'', PStr biennium),
                              (''roll_calls'', PList formatted_roll_calls)]),
            (''metadata'',
               PDict [(''api_call'', PStr ''GetRollCalls''),
                      (''count'', PInt (int (length formatted_roll_calls)))])]"

subsection \<open>Normalization of one record\<close>

text \<open>Lines 135-140: one entry of \<^verbatim>\<open>votes_list\<close>. The values of the dictionary are
  computed in the order of the source; \<^verbatim>\<open>str\<close> of the district may raise.\<close>

definition format_vote :: "nat \<Rightarrow> pyval \<Rightarrow> py_exn + pyval" where
  "format_vote max_str_digits vote =
     bind_exn (py_get vote ''name'' (PStr [])) (\<lambda>name.
     bind_exn (py_get vote ''vote_value'' (PStr [])) (\<lambda>vote_value.
     bind_exn (py_get vote ''district'' (PStr [])) (\<lambda>district.
     bind_exn (py_str max_str_digits district) (\<lambda>district_str.
     bind_exn (py_get vote ''party'' (PStr [])) (\<lambda>party.
       Inr (PDict [(''legislator_name'', name),
                   (''vote'', vote_value),
                   (''district'', PStr district_str),
                   (''party'', party)]))))))"

text \<open>Lines 127-132: the sequence of vote entries behind the \<^verbatim>\<open>votes\<close> field.\<close>

definition votes_array_of :: "pyval \<Rightarrow> py_exn + pyval" where
  "votes_array_of votes_data =
     (case votes_data of
        PDict d \<Rightarrow> py_get votes_data ''array_of_vote'' (PList [])
      | PList l \<Rightarrow> Inr votes_data
      | _ \<Rightarrow> Inr (PList []))"

text \<open>Lines 116-151: the body of the loop over the fetched records.\<close>

definition format_roll_call :: "nat \<Rightarrow> pyval \<Rightarrow> py_exn + pyval" where
  "format_roll_call max_str_digits roll_call =
     bind_exn (py_get roll_call ''yea_count'' (PInt 0)) (\<lambda>yea_count.
     bind_exn (py_get roll_call ''nay_count'' (PInt 0)) (\<lambda>nay_count.
     bind_exn (py_get roll_call ''absent_count'' (PInt 0)) (\<lambda>absent_count.
     bind_exn (py_get roll_call ''excused_count'' (PInt 0)) (\<lambda>excused_count.
     bind_exn (py_get roll_call ''votes'' (PDict [])) (\<lambda>votes_data.
     bind_exn (votes_array_of votes_data) (\<lambda>votes_array.
     bind_exn (py_iter votes_array) (\<lambda>votes.
     bind_exn (map_exn (format_vote max_str_digits) votes) (\<lambda>votes_list.
     bind_exn (py_get roll_call ''sequence_number'' (PInt 0)) (\<lambda>sequence_number.
     bind_exn (py_get roll_call ''vote_date'' (PStr [])) (\<lambda>vote_date.
     bind_exn (py_get roll_call ''motion'' (PStr [])) (\<lambda>motion.
       Inr (PDict [(''sequence_number'', sequence_number),
                   (''date'', vote_date),
                   (''description'', motion),
                   (''yea_votes'', yea_count),
                   (''nay_votes'', nay_count),
                   (''absent_votes'', absent_count),
                   (''excused_votes'', excused_count),
                   (''votes'', PList votes_list)]))))))))))))"

subsection \<open>The pipeline\<close>

text \<open>Lines 71-77: the digits of the bill identifier.\<close>

definition bill_num_str_of :: "string \<Rightarrow> py_exn + string" where
  "bill_num_str_of bill_number =
     (let bill_num_str = py_strip bill_number
      in bind_exn (if CHR '' '' \<in> set bill_num_str
                   then py_last (py_split bill_num_str)
                   else Inr bill_num_str)
           (\<lambda>bill_num_str. Inr (filter py_isdigit bill_num_str)))"

text \<open>Lines 71-90: \<open>None\<close> is the empty digit string of line 79, an exception is the one
  \<^verbatim>\<open>int\<close> raises at line 90.\<close>

definition parse_bill_number :: "nat \<Rightarrow> string \<Rightarrow> py_exn + int option" where
  "parse_bill_number max_str_digits bill_number =
     bind_exn (bill_num_str_of bill_number) (\<lambda>bill_num_str.
       if bill_num_str = [] then Inr None
       else bind_exn (py_int max_str_digits bill_num_str) (\<lambda>bill_num. Inr (Some bill_num)))"

text \<open>Line 67: \<^verbatim>\<open>if not biennium\<close> holds of \<^verbatim>\<open>None\<close> and of the empty string.\<close>

definition resolve_biennium :: "collaborators \<Rightarrow> string option \<Rightarrow> string" where
  "resolve_biennium env biennium =
     (case biennium of
        None \<Rightarrow> get_current_biennium env
      | Some b \<Rightarrow> if b = [] then get_current_biennium env else b)"

text \<open>Lines 98-167: what happens to the fetched value.\<close>

definition normalize_roll_calls ::
    "nat \<Rightarrow> string \<Rightarrow> string \<Rightarrow> pyval \<Rightarrow> py_exn + pyval" where
  "normalize_roll_calls max_str_digits bill_number biennium roll_calls_data =
     (if \<not> py_truthy roll_calls_data then Inr (no_roll_calls_response bill_number biennium)
      else bind_exn (py_len roll_calls_data) (\<lambda>n.
        if n = 0 then Inr (no_roll_calls_response bill_number biennium)
        else bind_exn (py_iter roll_calls_data) (\<lambda>records.
             bind_exn (map_exn (format_roll_call max_str_digits) records)
               (\<lambda>formatted_roll_calls.
             bind_exn (py_sort_by_key (\<lambda>x. py_get x ''sequence_number'' (PInt 0))
                         formatted_roll_calls) (\<lambda>sorted_roll_calls.
               Inr (success_response bill_number biennium sorted_roll_calls))))))"

text \<open>
  The body of the \<^verbatim>\<open>try\<close> (lines 66-167). The second component is the list of the calls
  made to the shim, each with its arguments.
\<close>

definition try_body ::
    "collaborators \<Rightarrow> string \<Rightarrow> string option \<Rightarrow> (py_exn + pyval) \<times> (string \<times> int) list" where
  "try_body env bill_number biennium =
     (let biennium = resolve_biennium env biennium
      in case parse_bill_number (int_max_str_digits env) bill_number of
           Inl e \<Rightarrow> (Inl e, [])
         | Inr None \<Rightarrow> (Inr (invalid_format_response bill_number), [])
         | Inr (Some bill_num) \<Rightarrow>
             (bind_exn (wsl_client_get_roll_calls env biennium bill_num)
                (normalize_roll_calls (int_max_str_digits env) bill_number biennium),
              [(biennium, bill_num)]))"

text \<open>
  The function with its two handlers (lines 169-190): \<^verbatim>\<open>except ValueError\<close> first, then
  \<^verbatim>\<open>except Exception\<close>; any other exception leaves the function.
\<close>

definition get_roll_calls ::
    "collaborators \<Rightarrow> string \<Rightarrow> string option \<Rightarrow> (py_exn + pyval) \<times> (string \<times> int) list" where
  "get_roll_calls env bill_number biennium =
     (case try_body env bill_number biennium of
        (Inr response, calls) \<Rightarrow> (Inr response, calls)
      | (Inl e, calls) \<Rightarrow>
          if is_ValueError e then (Inr (invalid_number_response bill_number), calls)
          else if is_Exception e then (Inr (unexpected_response e), calls)
          else (Inl e, calls))"

section \<open>Notions used to state the properties\<close>

subsection \<open>Reading an envelope\<close>

definition is_mapping :: "pyval \<Rightarrow> bool" where
  "is_mapping v = (case v of PDict d \<Rightarrow> True | _ \<Rightarrow> False)"

definition is_sequence :: "pyval \<Rightarrow> bool" where
  "is_sequence v = (case v of PList xs \<Rightarrow> True | _ \<Rightarrow> False)"

text \<open>\<^verbatim>\<open>v[k]\<close> where \<^verbatim>\<open>k in v\<close>, for a dictionary \<open>v\<close>.\<close>

definition py_field :: "pyval \<Rightarrow> string \<Rightarrow> pyval option" where
  "py_field v k = (case v of PDict d \<Rightarrow> map_of d k | _ \<Rightarrow> None)"

text \<open>The invariant of the response envelope: \<^verbatim>\<open>success\<close> is there; either \<^verbatim>\<open>data\<close>
  is there and \<^verbatim>\<open>error\<close> is not, or \<^verbatim>\<open>error\<close> is a string that is not empty and
  \<^verbatim>\<open>data\<close> is not there; \<^verbatim>\<open>success\<close> is true exactly when \<^verbatim>\<open>data\<close> is there;
  \<^verbatim>\<open>metadata\<close> is a mapping with the key \<^verbatim>\<open>api_call\<close>.\<close>

definition envelope_invariant :: "pyval \<Rightarrow> bool" where
  "envelope_invariant r =
     (is_mapping r
      \<and> py_field r ''success'' \<noteq> None
      \<and> ((py_field r ''data'' \<noteq> None \<and> py_field r ''error'' = None)
         \<or> ((case py_field r ''error'' of Some (PStr msg) \<Rightarrow> msg \<noteq> [] | _ \<Rightarrow> False)
            \<and> py_field r ''data'' = None))
      \<and> ((py_field r ''success'' = Some (PBool True)) = (py_field r ''data'' \<noteq> None))
      \<and> (case py_field r ''metadata'' of
            Some m \<Rightarrow> is_mapping m \<and> py_field m ''api_call'' \<noteq> None
          | None \<Rightarrow> False))"

text \<open>The sequence number of an assembled record: the value under the key, and that
  value as an integer (0 when it is not one).\<close>

definition sequence_value :: "pyval \<Rightarrow> pyval" where
  "sequence_value r =
     (case r of PDict d \<Rightarrow> dict_get d ''sequence_number'' (PInt 0) | _ \<Rightarrow> PInt 0)"

definition int_or_zero :: "pyval \<Rightarrow> int" where
  "int_or_zero v = (case int_like v of Some i \<Rightarrow> i | None \<Rightarrow> 0)"

definition sequence_key :: "pyval \<Rightarrow> int" where
  "sequence_key r = int_or_zero (sequence_value r)"

subsection \<open>The canonical bill number, as the specification words it\<close>

text \<open>
  Trim the input; if the trimmed string contains a space take the last token delimited by
  white space; strip every character that is not a digit; read the result as an integer.
\<close>

definition trim_spec :: "string \<Rightarrow> string" where
  "trim_spec s = rev (dropWhile py_isspace (rev (dropWhile py_isspace s)))"

definition last_token_spec :: "string \<Rightarrow> string" where
  "last_token_spec s = rev (takeWhile (\<lambda>c. \<not> py_isspace c) (rev s))"

fun decimal_spec :: "string \<Rightarrow> int" where
  "decimal_spec [] = 0"
| "decimal_spec (c # cs) = digit_value c * 10 ^ length cs + decimal_spec cs"

definition canonical_bill_number_spec :: "string \<Rightarrow> int option" where
  "canonical_bill_number_spec s =
     (let t = trim_spec s;
          token = (if CHR '' '' \<in> set t then last_token_spec t else t);
          digits = filter py_isdigit token
      in if digits \<noteq> [] \<and> list_all py_isdecimal digits then Some (decimal_spec digits)
         else None)"

subsection \<open>Sample collaborators\<close>

definition sample_record :: pyval where
  "sample_record =
     PDict [(''sequence_number'', PInt 1),
            (''vote_date'', PStr ''2023-03-15''),
            (''motion'', PStr ''Final Passage''),
            (''yea_count'', PInt 65),
            (''nay_count'', PInt 33),
            (''absent_count'', PInt 0),
            (''excused_count'', PInt 0),
            (''votes'', PDict [(''array_of_vote'',
               PList [PDict [(''name'', PStr ''Smith, John''),
                             (''vote_value'', PStr ''Yea''),
                             (''district'', PInt 1),
                             (''party'', PStr ''D'')]])])]"

text \<open>The record the tool assembles from \<^term>\<open>sample_record\<close>.\<close>

definition sample_roll_call :: pyval where
  "sample_roll_call =
     PDict [(''sequence_number'', PInt 1),
            (''date'', PStr ''2023-03-15''),
            (''description'', PStr ''Final Passage''),
            (''yea_votes'', PInt 65),
            (''nay_votes'', PInt 33),
            (''absent_votes'', PInt 0),
            (''excused_votes'', PInt 0),
            (''votes'', PList [PDict [(''legislator_name'', PStr ''Smith, John''),
                                      (''vote'', PStr ''Yea''),
                                      (''district'', PStr ''1''),
                                      (''party'', PStr ''D'')]])]"

text \<open>Fetched records that carry a sequence number and a motion only, and what the tool
  assembles from them.\<close>

definition roll_call_record :: "int \<Rightarrow> string \<Rightarrow> pyval" where
  "roll_call_record seq motion =
     PDict [(''sequence_number'', PInt seq), (''motion'', PStr motion)]"

definition assembled_roll_call :: "int \<Rightarrow> string \<Rightarrow> pyval" where
  "assembled_roll_call seq motion =
     PDict [(''sequence_number'', PInt seq),
            (''date'', PStr []),
            (''description'', PStr motion),
            (''yea_votes'', PInt 0),
            (''nay_votes'', PInt 0),
            (''absent_votes'', PInt 0),
            (''excused_votes'', PInt 0),
            (''votes'', PList [])]"

definition unordered_records :: "pyval list" where
  "unordered_records =
     [roll_call_record 3 ''Third Reading'',
      roll_call_record 1 ''First Reading'',
      roll_call_record 2 ''Second Reading'']"

definition unordered_fetch :: "string \<Rightarrow> int \<Rightarrow> py_exn + pyval" where
  "unordered_fetch biennium bill_number = Inr (PList unordered_records)"

definition tied_records :: "pyval list" where
  "tied_records =
     [roll_call_record 2 ''Motion A'',
      roll_call_record 1 ''Motion B'',
      roll_call_record 2 ''Motion C'']"

definition tied_fetch :: "string \<Rightarrow> int \<Rightarrow> py_exn + pyval" where
  "tied_fetch biennium bill_number = Inr (PList tied_records)"

text \<open>A fetched record whose sequence number is an integer (or missing, hence 0).\<close>

definition has_integer_sequence_number :: "pyval \<Rightarrow> bool" where
  "has_integer_sequence_number r =
     (case r of
        PDict d \<Rightarrow> int_like (dict_get d ''sequence_number'' (PInt 0)) \<noteq> None
      | _ \<Rightarrow> False)"

text \<open>One vote entry, and three records that differ in the shape of the \<^verbatim>\<open>votes\<close> field
  only.\<close>

definition sample_vote :: pyval where
  "sample_vote =
     PDict [(''name'', PStr ''Doe, Jane''), (''vote_value'', PStr ''Nay''),
            (''district'', PInt 2), (''party'', PStr ''R'')]"

definition bare_votes_fields :: "(string \<times> pyval) list" where
  "bare_votes_fields = [(''sequence_number'', PInt 4), (''votes'', PList [sample_vote])]"

definition wrapped_votes_fields :: "(string \<times> pyval) list" where
  "wrapped_votes_fields =
     [(''sequence_number'', PInt 4), (''votes'', PDict [(''array_of_vote'', PList [sample_vote])])]"

definition scalar_votes_fields :: "(string \<times> pyval) list" where
  "scalar_votes_fields = [(''sequence_number'', PInt 4), (''votes'', PStr ''none recorded'')]"

definition sample_fetch :: "string \<Rightarrow> int \<Rightarrow> py_exn + pyval" where
  "sample_fetch biennium bill_number = Inr (PList [sample_record])"

definition absent_fetch :: "string \<Rightarrow> int \<Rightarrow> py_exn + pyval" where
  "absent_fetch biennium bill_number = Inr PNone"

definition empty_fetch :: "string \<Rightarrow> int \<Rightarrow> py_exn + pyval" where
  "empty_fetch biennium bill_number = Inr (PList [])"

definition api_error_fetch :: "string \<Rightarrow> int \<Rightarrow> py_exn + pyval" where
  "api_error_fetch biennium bill_number = Inl (Raised OtherException ''API Error'')"






definition env_with :: "(string \<Rightarrow> int \<Rightarrow> py_exn + pyval) \<Rightarrow> collaborators" where
  "env_with fetch =
     \<lparr>get_current_biennium = ''2025-26'',
      wsl_client_get_roll_calls = fetch,
      int_max_str_digits = 4300\<rparr>"

text \<open>The exceptions the normalization itself can raise.\<close>

definition internal_exn :: "py_exn \<Rightarrow> bool" where
  "internal_exn e = (exn_class_of e = TypeError \<or> exn_class_of e = AttributeError)"

section \<open>Auxiliary facts\<close>

subsection \<open>Which exceptions the parts of the pipeline raise\<close>

lemma bind_exn_Inl_iff:
  "bind_exn m f = Inl e \<longleftrightarrow> m = Inl e \<or> (\<exists>x. m = Inr x \<and> f x = Inl e)"
  by (cases m) (simp_all add: bind_exn_def)

lemma bind_exn_Inr_iff:
  "bind_exn m f = Inr y \<longleftrightarrow> (\<exists>x. m = Inr x \<and> f x = Inr y)"
  by (cases m) (simp_all add: bind_exn_def)

lemma bind_exn_simps [simp]:
  "bind_exn (Inl e) f = Inl e" "bind_exn (Inr x) f = f x"
  by (simp_all add: bind_exn_def)

lemma map_exn_Inl: "map_exn f xs = Inl e \<Longrightarrow> \<exists>x \<in> set xs. f x = Inl e"
  by (induction xs) (auto split: sum.splits)

lemma map_exn_Inr_length: "map_exn f xs = Inr ys \<Longrightarrow> length ys = length xs"
  by (induction xs arbitrary: ys) (auto split: sum.splits)

lemma py_get_Inl: "py_get v k d = Inl e \<Longrightarrow> internal_exn e"
  by (cases v) (auto simp: internal_exn_def)

lemma py_iter_Inl: "py_iter v = Inl e \<Longrightarrow> internal_exn e"
  by (cases v) (auto simp: internal_exn_def)

lemma py_len_Inl: "py_len v = Inl e \<Longrightarrow> internal_exn e"
  by (cases v) (auto simp: internal_exn_def)

lemma py_lt_Inl: "py_lt a b = Inl e \<Longrightarrow> internal_exn e"
  and lt_items_Inl: "lt_items xs ys = Inl e \<Longrightarrow> internal_exn e"
  by (induction a b and xs ys rule: py_lt_lt_items.induct)
     (auto simp: internal_exn_def lt_unsupported_def split: if_splits option.splits)

lemma insort_lt_Inl: "insort_lt x ys = Inl e \<Longrightarrow> internal_exn e"
  by (induction ys) (auto split: sum.splits bool.splits dest: py_lt_Inl)

lemma sort_lt_Inl: "sort_lt xs = Inl e \<Longrightarrow> internal_exn e"
  by (induction xs) (auto split: sum.splits dest: insort_lt_Inl)

lemma py_sort_by_key_Inl:
  "py_sort_by_key key xs = Inl e \<Longrightarrow> (\<And>x e. key x = Inl e \<Longrightarrow> internal_exn e) \<Longrightarrow> internal_exn e"
  by (auto simp: py_sort_by_key_def split: sum.splits dest: sort_lt_Inl map_exn_Inl)

lemma int_str_Inl: "int_str m i = Inl e \<Longrightarrow> is_ValueError e"
  by (auto simp: int_str_def Let_def is_ValueError_def split: if_splits)

lemma py_repr_Inl: "py_repr m v = Inl e \<Longrightarrow> is_ValueError e"
  and repr_items_Inl: "repr_items m xs = Inl e \<Longrightarrow> is_ValueError e"
  and repr_pairs_Inl: "repr_pairs m d = Inl e \<Longrightarrow> is_ValueError e"
  by (induction m v and m xs and m d rule: py_repr_repr_items_repr_pairs.induct)
     (auto split: sum.splits dest: int_str_Inl)

lemma py_str_Inl:
  assumes "py_str m v = Inl e"
  shows "is_ValueError e"
proof -
  from assms have "py_repr m v = Inl e"
    by (cases v) (simp_all add: py_str_def)
  then show ?thesis by (rule py_repr_Inl)
qed

lemma format_vote_Inl: "format_vote m v = Inl e \<Longrightarrow> internal_exn e \<or> is_ValueError e"
  by (auto simp: format_vote_def bind_exn_Inl_iff dest: py_get_Inl py_str_Inl)

lemma votes_array_of_Inl: "votes_array_of v = Inl e \<Longrightarrow> internal_exn e"
  by (cases v) (auto simp: votes_array_of_def)

lemma format_roll_call_Inl:
  "format_roll_call m r = Inl e \<Longrightarrow> internal_exn e \<or> is_ValueError e"
  by (auto simp: format_roll_call_def bind_exn_Inl_iff
      dest: py_get_Inl votes_array_of_Inl py_iter_Inl format_vote_Inl dest!: map_exn_Inl)

lemma normalize_roll_calls_Inl:
  "normalize_roll_calls m bn b d = Inl e \<Longrightarrow> internal_exn e \<or> is_ValueError e"
  by (auto simp: normalize_roll_calls_def bind_exn_Inl_iff split: if_splits
      dest: py_len_Inl py_iter_Inl format_roll_call_Inl py_get_Inl dest!: map_exn_Inl py_sort_by_key_Inl)

lemma py_int_Inl: "py_int m s = Inl e \<Longrightarrow> is_ValueError e"
  by (auto simp: py_int_def is_ValueError_def split: if_splits)

subsection \<open>Stripping and splitting\<close>

lemma split_ws_nonempty:
  "cur \<noteq> [] \<or> (\<exists>c \<in> set s. \<not> py_isspace c) \<Longrightarrow> split_ws cur s \<noteq> []"
  by (induction s arbitrary: cur) auto

lemma py_strip_dropWhile:
  "py_strip s = rev (dropWhile py_isspace (rev (dropWhile py_isspace s)))"
proof -
  define t where "t = dropWhile py_isspace s"
  define i where "i = length (takeWhile py_isspace s)"
  have ts: "t = drop i s" by (simp add: t_def i_def dropWhile_eq_drop)
  have len: "length t = length s - i" by (simp add: ts)
  have revt: "rev (dropWhile py_isspace (rev t)) = take (length t - length (takeWhile py_isspace (rev t))) t"
    by (metis dropWhile_eq_drop length_rev rev_drop rev_rev_ident)
  show ?thesis
  proof (cases "t = []")
    case True
    then show ?thesis unfolding py_strip_def Let_def t_def[symmetric] i_def[symmetric] ts[symmetric] by simp
  next
    case False
    then have "\<not> py_isspace (hd t)" unfolding t_def by (metis hd_dropWhile)
    then have ex: "\<exists>c \<in> set (rev t). \<not> py_isspace c" using False by (metis hd_in_set set_rev)
    have "s = takeWhile py_isspace s @ t" by (simp add: t_def)
    then have "rev s = rev t @ rev (takeWhile py_isspace s)" by (metis rev_append)
    then have "takeWhile py_isspace (rev s) = takeWhile py_isspace (rev t)"
      using ex by (metis takeWhile_append1)
    then show ?thesis
      unfolding py_strip_def Let_def i_def[symmetric] ts[symmetric] t_def[symmetric] revt
      using len by (simp add: add.commute)
  qed
qed

lemma py_strip_hd: "py_strip s \<noteq> [] \<Longrightarrow> \<not> py_isspace (hd (py_strip s))"
proof -
  assume ne: "py_strip s \<noteq> []"
  define t where "t = dropWhile py_isspace s"
  have eq: "py_strip s = rev (dropWhile py_isspace (rev t))" by (simp add: py_strip_dropWhile t_def)
  with ne have tne: "t \<noteq> []" by auto
  then have h: "\<not> py_isspace (hd t)" unfolding t_def by (metis hd_dropWhile)
  have "t = py_strip s @ rev (takeWhile py_isspace (rev t))"
    unfolding eq by (metis rev_append rev_rev_ident takeWhile_dropWhile_id)
  then have "hd t = hd (py_strip s)" using ne by (metis hd_append2)
  with h show ?thesis by simp
qed
lemma py_strip_last: "py_strip s \<noteq> [] \<Longrightarrow> \<not> py_isspace (last (py_strip s))"
  unfolding py_strip_dropWhile
  by (metis (full_types) hd_dropWhile hd_rev rev.simps(1) rev_rev_ident)

subsection \<open>The branches of the pipeline\<close>

lemma py_split_strip_nonempty:
  assumes "CHR '' '' \<in> set (py_strip s)"
  shows "py_split (py_strip s) \<noteq> []"
proof -
  from assms have ne: "py_strip s \<noteq> []" by auto
  then have "\<not> py_isspace (hd (py_strip s))" by (rule py_strip_hd)
  moreover have "hd (py_strip s) \<in> set (py_strip s)" using ne by simp
  ultimately show ?thesis unfolding py_split_def by (intro split_ws_nonempty) blast
qed

lemma bill_num_str_of_eq:
  "bill_num_str_of s =
     Inr (filter py_isdigit
            (if CHR '' '' \<in> set (py_strip s) then last (py_split (py_strip s)) else py_strip s))"
  using py_split_strip_nonempty [of s]
  by (auto simp: bill_num_str_of_def Let_def py_last_def split: list.splits)

lemma parse_bill_number_Inl: "parse_bill_number m s = Inl e \<Longrightarrow> is_ValueError e"
  by (auto simp: parse_bill_number_def bill_num_str_of_eq bind_exn_Inl_iff split: if_splits dest: py_int_Inl)


lemma ValueError_is_Exception: "is_ValueError e \<Longrightarrow> is_Exception e"
  by (auto simp: is_Exception_def is_ValueError_def)

lemma get_roll_calls_invalid_format:
  "parse_bill_number (int_max_str_digits env) bn = Inr None \<Longrightarrow>
   get_roll_calls env bn b = (Inr (invalid_format_response bn), [])"
  by (simp add: get_roll_calls_def try_body_def)

lemma get_roll_calls_invalid_number:
  "parse_bill_number (int_max_str_digits env) bn = Inl e \<Longrightarrow>
   get_roll_calls env bn b = (Inr (invalid_number_response bn), [])"
  by (simp add: get_roll_calls_def try_body_def parse_bill_number_Inl)

lemma normalization_is_Exception:
  "internal_exn e \<or> is_ValueError e \<Longrightarrow> is_Exception e"
  by (auto simp: internal_exn_def is_Exception_def is_ValueError_def)

lemma get_roll_calls_fetched:
  "parse_bill_number (int_max_str_digits env) bn = Inr (Some n) \<Longrightarrow>
   wsl_client_get_roll_calls env (resolve_biennium env b) n = Inr d \<Longrightarrow>
   get_roll_calls env bn b =
     ((case normalize_roll_calls (int_max_str_digits env) bn (resolve_biennium env b) d of
         Inl e \<Rightarrow> if is_ValueError e then Inr (invalid_number_response bn)
                  else Inr (unexpected_response e)
       | Inr r \<Rightarrow> Inr r),
      [(resolve_biennium env b, n)])"
  by (auto simp: get_roll_calls_def try_body_def split: sum.splits
      dest!: normalize_roll_calls_Inl normalization_is_Exception)

lemma get_roll_calls_fetch_raises:
  "parse_bill_number (int_max_str_digits env) bn = Inr (Some n) \<Longrightarrow>
   wsl_client_get_roll_calls env (resolve_biennium env b) n = Inl e \<Longrightarrow>
   get_roll_calls env bn b =
     (if is_ValueError e then Inr (invalid_number_response bn)
      else if is_Exception e then Inr (unexpected_response e) else Inl e,
      [(resolve_biennium env b, n)])"
  by (auto simp: get_roll_calls_def try_body_def)

section \<open>Validation of the bill identifier\<close>

text \<open>
  C3. Whenever the digits extracted from the bill identifier are the empty string (as for
  \<^verbatim>\<open>INVALID\<close>), the tool returns the validation envelope with the message about the
  expected format, the original input in it, and the shim has not been called.
\<close>

theorem invalid_format_returns_validation_envelope:
  assumes "bill_num_str_of bill_number = Inr []"
  shows "get_roll_calls env bill_number biennium =
           (Inr (PDict [(''success'', PBool False),
                        (''error'', PStr (''Invalid bill number format: '' @ bill_number
                                          @ ''. Expected format: '' @ sq ''HB 1234'' @ '', ''
                                          @ sq ''SB 5678'' @ '', or '' @ sq ''1234'')),
                        (''error_type'', PStr ''validation''),
                        (''metadata'', PDict [(''tool_name'', PStr ''get_roll_calls''),
                                              (''api_call'', PStr ''GetRollCalls'')])]),
            [])"
proof -
  from assms have "parse_bill_number (int_max_str_digits env) bill_number = Inr None"
    by (simp add: parse_bill_number_def)
  then show ?thesis
    by (simp add: get_roll_calls_invalid_format invalid_format_response_def error_metadata_def)
qed

theorem invalid_format_returns_validation_envelope_witness:
  "bill_num_str_of ''INVALID'' = Inr []
   \<and> get_roll_calls (env_with sample_fetch) ''INVALID'' None =
       (Inr (PDict [(''success'', PBool False),
                    (''error'', PStr (''Invalid bill number format: INVALID. Expected format: ''
                                      @ sq ''HB 1234'' @ '', '' @ sq ''SB 5678'' @ '', or ''
                                      @ sq ''1234'')),
                    (''error_type'', PStr ''validation''),
                    (''metadata'', PDict [(''tool_name'', PStr ''get_roll_calls''),
                                          (''api_call'', PStr ''GetRollCalls'')])]),
        [])"
proof -
  have h: "bill_num_str_of ''INVALID'' = Inr []" by code_simp
  show ?thesis
    using h invalid_format_returns_validation_envelope [OF h, of "env_with sample_fetch" None]
    by simp
qed

text \<open>
  C4. Whenever the extracted digit string is not empty and \<^verbatim>\<open>int\<close> fails on it (a digit
  that is not decimal, or more digits than the interpreter converts), the tool returns the
  validation envelope with the message \<^verbatim>\<open>Invalid bill number: ... Must be a valid number.\<close>
  and the original input in it; the shim has not been called.
\<close>

theorem unparsable_digits_return_validation_envelope:
  assumes "bill_num_str_of bill_number = Inr digits"
    and "digits \<noteq> []"
    and "py_int (int_max_str_digits env) digits = Inl e"
  shows "get_roll_calls env bill_number biennium =
           (Inr (PDict [(''success'', PBool False),
                        (''error'', PStr (''Invalid bill number: '' @ bill_number
                                          @ ''. Must be a valid number.'')),
                        (''error_type'', PStr ''validation''),
                        (''metadata'', PDict [(''tool_name'', PStr ''get_roll_calls''),
                                              (''api_call'', PStr ''GetRollCalls'')])]),
            [])"
proof -
  from assms have "parse_bill_number (int_max_str_digits env) bill_number = Inl e"
    by (simp add: parse_bill_number_def)
  then show ?thesis
    by (simp add: get_roll_calls_invalid_number invalid_number_response_def error_metadata_def)
qed

theorem unparsable_digits_return_validation_envelope_witness:
  "bill_num_str_of (''HB 12'' @ [CHR 0xB2]) = Inr (''12'' @ [CHR 0xB2])
   \<and> ''12'' @ [CHR 0xB2] \<noteq> []
   \<and> py_int (int_max_str_digits (env_with sample_fetch)) (''12'' @ [CHR 0xB2]) =
       Inl (Raised ValueError (''invalid literal for int() with base 10: ''
                               @ sq (''12'' @ [CHR 0xB2])))
   \<and> get_roll_calls (env_with sample_fetch) (''HB 12'' @ [CHR 0xB2]) None =
       (Inr (PDict [(''success'', PBool False),
                    (''error'', PStr (''Invalid bill number: HB 12'' @ [CHR 0xB2]
                                      @ ''. Must be a valid number.'')),
                    (''error_type'', PStr ''validation''),
                    (''metadata'', PDict [(''tool_name'', PStr ''get_roll_calls''),
                                          (''api_call'', PStr ''GetRollCalls'')])]),
        [])"
proof -
  have h1: "bill_num_str_of (''HB 12'' @ [CHR 0xB2]) = Inr (''12'' @ [CHR 0xB2])"
    by code_simp
  have h2: "''12'' @ [CHR 0xB2] \<noteq> []" by simp
  have h3: "py_int (int_max_str_digits (env_with sample_fetch)) (''12'' @ [CHR 0xB2]) =
       Inl (Raised ValueError (''invalid literal for int() with base 10: ''
                               @ sq (''12'' @ [CHR 0xB2])))"
    by code_simp
  show ?thesis
    using h1 h2 h3 unparsable_digits_return_validation_envelope [OF h1 h2 h3, of None]
    by simp
qed

section \<open>Empty results\<close>

text \<open>
  C5. For a bill identifier that parses, if the fetch returns \<^verbatim>\<open>None\<close> or the empty list,
  the tool returns the success envelope whose data hold the original input, the resolved
  biennium and an empty list of roll calls, and whose metadata hold the message
  \<^verbatim>\<open>No roll calls found for bill ... in biennium ...\<close> and the \<^verbatim>\<open>api_call\<close>; it is not an
  error envelope.
\<close>

theorem empty_fetch_is_success:
  assumes "parse_bill_number (int_max_str_digits env) bill_number = Inr (Some n)"
    and "fetched = PNone \<or> fetched = PList []"
    and "wsl_client_get_roll_calls env (resolve_biennium env biennium) n = Inr fetched"
  shows "get_roll_calls env bill_number biennium =
           (Inr (PDict [(''success'', PBool True),
                        (''data'', PDict [(''bill_number'', PStr bill_number),
                                          (''biennium'', PStr (resolve_biennium env biennium)),
                                          (''roll_calls'', PList [])]),
                        (''metadata'',
                           PDict [(''message'',
                                     PStr (''No roll calls found for bill '' @ bill_number
                                           @ '' in biennium '' @ resolve_biennium env biennium)),
                                  (''api_call'', PStr ''GetRollCalls'')])]),
            [(resolve_biennium env biennium, n)])"
proof -
  from assms(2) have "normalize_roll_calls (int_max_str_digits env) bill_number
      (resolve_biennium env biennium) fetched =
      Inr (no_roll_calls_response bill_number (resolve_biennium env biennium))"
    by (auto simp: normalize_roll_calls_def)
  then show ?thesis
    using get_roll_calls_fetched [OF assms(1) assms(3)]
    by (simp add: no_roll_calls_response_def)
qed

theorem empty_fetch_is_success_witness:
  "parse_bill_number (int_max_str_digits (env_with absent_fetch)) ''HB 9999'' = Inr (Some 9999)
   \<and> wsl_client_get_roll_calls (env_with absent_fetch)
        (resolve_biennium (env_with absent_fetch) (Some ''2023-24'')) 9999 = Inr PNone
   \<and> wsl_client_get_roll_calls (env_with empty_fetch)
        (resolve_biennium (env_with empty_fetch) (Some ''2023-24'')) 9999 = Inr (PList [])
   \<and> get_roll_calls (env_with absent_fetch) ''HB 9999'' (Some ''2023-24'') =
       (Inr (PDict [(''success'', PBool True),
                    (''data'', PDict [(''bill_number'', PStr ''HB 9999''),
                                      (''biennium'', PStr ''2023-24''),
                                      (''roll_calls'', PList [])]),
                    (''metadata'',
                       PDict [(''message'',
                                 PStr ''No roll calls found for bill HB 9999 in biennium 2023-24''),
                              (''api_call'', PStr ''GetRollCalls'')])]),
        [(''2023-24'', 9999)])
   \<and> get_roll_calls (env_with empty_fetch) ''HB 9999'' (Some ''2023-24'') =
       get_roll_calls (env_with absent_fetch) ''HB 9999'' (Some ''2023-24'')"
proof -
  have h1: "parse_bill_number (int_max_str_digits (env_with absent_fetch)) ''HB 9999'' =
      Inr (Some 9999)"
    by code_simp
  have h1': "parse_bill_number (int_max_str_digits (env_with empty_fetch)) ''HB 9999'' =
      Inr (Some 9999)"
    by code_simp
  have h2: "PNone = PNone \<or> PNone = PList []" by simp
  have h2': "PList [] = PNone \<or> PList [] = PList []" by simp
  have h3: "wsl_client_get_roll_calls (env_with absent_fetch)
        (resolve_biennium (env_with absent_fetch) (Some ''2023-24'')) 9999 = Inr PNone"
    by (simp add: env_with_def absent_fetch_def)
  have h3': "wsl_client_get_roll_calls (env_with empty_fetch)
        (resolve_biennium (env_with empty_fetch) (Some ''2023-24'')) 9999 = Inr (PList [])"
    by (simp add: env_with_def empty_fetch_def)
  have r: "resolve_biennium (env_with absent_fetch) (Some ''2023-24'') = ''2023-24''"
    "resolve_biennium (env_with empty_fetch) (Some ''2023-24'') = ''2023-24''"
    by (simp_all add: resolve_biennium_def)
  show ?thesis
    using h1 h3 h3' empty_fetch_is_success [OF h1 h2 h3] empty_fetch_is_success [OF h1' h2' h3']
    unfolding r by simp
qed

section \<open>The end-to-end example\<close>

lemma parse_HB_1234: "parse_bill_number m ''HB 1234'' = Inr (Some 1234)"
proof -
  have "bill_num_str_of ''HB 1234'' = Inr ''1234''" by code_simp
  then show ?thesis
    by (simp add: parse_bill_number_def py_int_def py_isdecimal_def digit_value_def)
qed

lemma py_str_one: "py_str m (PInt 1) = Inr ''1''"
  by (simp add: py_str_def int_str_def)

lemma format_sample_record: "format_roll_call m sample_record = Inr sample_roll_call"
  by (simp add: format_roll_call_def format_vote_def votes_array_of_def sample_record_def
      sample_roll_call_def py_str_one)

lemma normalize_sample_record:
  "normalize_roll_calls m bn b (PList [sample_record]) =
     Inr (success_response bn b [sample_roll_call])"
  by (simp add: normalize_roll_calls_def format_sample_record py_sort_by_key_def
      sample_roll_call_def)

lemma normalize_sample:
  "normalize_roll_calls m ''HB 1234'' ''2023-24'' (PList [sample_record]) =
     Inr (PDict [(''success'', PBool True),
                 (''data'',
                    PDict [(''bill_number'', PStr ''HB 1234''),
                           (''biennium'', PStr ''2023-24''),
                           (''roll_calls'',
                              PList [PDict [(''sequence_number'', PInt 1),
                                            (''date'', PStr ''2023-03-15''),
                                            (''description'', PStr ''Final Passage''),
                                            (''yea_votes'', PInt 65),
                                            (''nay_votes'', PInt 33),
                                            (''absent_votes'', PInt 0),
                                            (''excused_votes'', PInt 0),
                                            (''votes'',
                                               PList [PDict [(''legislator_name'', PStr ''Smith, John''),
                                                             (''vote'', PStr ''Yea''),
                                                             (''district'', PStr ''1''),
                                                             (''party'', PStr ''D'')]])]])]),
                 (''metadata'', PDict [(''api_call'', PStr ''GetRollCalls''), (''count'', PInt 1)])])"
  by (simp add: normalize_sample_record success_response_def sample_roll_call_def)

text \<open>
  C6. With the bill identifier \<^verbatim>\<open>HB 1234\<close> and the biennium \<^verbatim>\<open>2023-24\<close>, if the shim
  returns the single record \<^term>\<open>sample_record\<close>, the tool returns exactly the success
  envelope of the specification: \<^verbatim>\<open>vote_date\<close> is renamed \<^verbatim>\<open>date\<close>, \<^verbatim>\<open>motion\<close> is
  renamed \<^verbatim>\<open>description\<close>, the district \<^verbatim>\<open>1\<close> becomes the string \<^verbatim>\<open>"1"\<close>, and
  \<^verbatim>\<open>count\<close> is the number of roll calls. The shim has been called once, with the
  biennium and the integer 1234.
\<close>

theorem end_to_end_example:
  assumes "wsl_client_get_roll_calls env ''2023-24'' 1234 = Inr (PList [sample_record])"
  shows "get_roll_calls env ''HB 1234'' (Some ''2023-24'') =
     (Inr (PDict [(''success'', PBool True),
                 (''data'',
                    PDict [(''bill_number'', PStr ''HB 1234''),
                           (''biennium'', PStr ''2023-24''),
                           (''roll_calls'',
                              PList [PDict [(''sequence_number'', PInt 1),
                                            (''date'', PStr ''2023-03-15''),
                                            (''description'', PStr ''Final Passage''),
                                            (''yea_votes'', PInt 65),
                                            (''nay_votes'', PInt 33),
                                            (''absent_votes'', PInt 0),
                                            (''excused_votes'', PInt 0),
                                            (''votes'',
                                               PList [PDict [(''legislator_name'', PStr ''Smith, John''),
                                                             (''vote'', PStr ''Yea''),
                                                             (''district'', PStr ''1''),
                                                             (''party'', PStr ''D'')]])]])]),
                 (''metadata'', PDict [(''api_call'', PStr ''GetRollCalls''), (''count'', PInt 1)])]),
      [(''2023-24'', 1234)])"
proof -
  have r: "resolve_biennium env (Some ''2023-24'') = ''2023-24''"
    by (simp add: resolve_biennium_def)
  from assms have f: "wsl_client_get_roll_calls env (resolve_biennium env (Some ''2023-24'')) 1234 =
      Inr (PList [sample_record])"
    by (simp add: r)
  show ?thesis
    using get_roll_calls_fetched [OF parse_HB_1234 f]
    by (simp add: r normalize_sample)
qed

theorem end_to_end_example_witness:
  "wsl_client_get_roll_calls (env_with sample_fetch) ''2023-24'' 1234 = Inr (PList [sample_record])
   \<and> fst (get_roll_calls (env_with sample_fetch) ''HB 1234'' (Some ''2023-24'')) =
     Inr (PDict [(''success'', PBool True),
                 (''data'',
                    PDict [(''bill_number'', PStr ''HB 1234''),
                           (''biennium'', PStr ''2023-24''),
                           (''roll_calls'',
                              PList [PDict [(''sequence_number'', PInt 1),
                                            (''date'', PStr ''2023-03-15''),
                                            (''description'', PStr ''Final Passage''),
                                            (''yea_votes'', PInt 65),
                                            (''nay_votes'', PInt 33),
                                            (''absent_votes'', PInt 0),
                                            (''excused_votes'', PInt 0),
                                            (''votes'',
                                               PList [PDict [(''legislator_name'', PStr ''Smith, John''),
                                                             (''vote'', PStr ''Yea''),
                                                             (''district'', PStr ''1''),
                                                             (''party'', PStr ''D'')]])]])]),
                 (''metadata'', PDict [(''api_call'', PStr ''GetRollCalls''), (''count'', PInt 1)])])"
proof -
  have h: "wsl_client_get_roll_calls (env_with sample_fetch) ''2023-24'' 1234 =
      Inr (PList [sample_record])"
    by (simp add: env_with_def sample_fetch_def)
  show ?thesis
    using h end_to_end_example [OF h] by simp
qed

section \<open>Every outcome of the tool\<close>

lemma normalize_roll_calls_Inr:
  "normalize_roll_calls m bn b d = Inr r \<Longrightarrow>
     r = no_roll_calls_response bn b \<or> (\<exists>rcs. r = success_response bn b rcs)"
  by (auto simp: normalize_roll_calls_def bind_exn_Inr_iff split: if_splits)

lemma get_roll_calls_cases:
  obtains
    (invalid_format) "get_roll_calls env bn b = (Inr (invalid_format_response bn), [])"
  | (invalid_number) calls where "get_roll_calls env bn b = (Inr (invalid_number_response bn), calls)"
  | (unexpected) e calls where "is_Exception e"
      "get_roll_calls env bn b = (Inr (unexpected_response e), calls)"
  | (no_roll_calls) n where
      "get_roll_calls env bn b =
         (Inr (no_roll_calls_response bn (resolve_biennium env b)), [(resolve_biennium env b, n)])"
  | (success) n rcs where
      "get_roll_calls env bn b =
         (Inr (success_response bn (resolve_biennium env b) rcs), [(resolve_biennium env b, n)])"
  | (propagated) e n where "\<not> is_Exception e"
      "wsl_client_get_roll_calls env (resolve_biennium env b) n = Inl e"
      "get_roll_calls env bn b = (Inl e, [(resolve_biennium env b, n)])"
proof (cases "parse_bill_number (int_max_str_digits env) bn")
  case (Inl e)
  then show ?thesis using get_roll_calls_invalid_number invalid_number by blast
next
  case (Inr p)
  show ?thesis
  proof (cases p)
    case None
    with Inr show ?thesis using get_roll_calls_invalid_format invalid_format by blast
  next
    case (Some n)
    with Inr have parse: "parse_bill_number (int_max_str_digits env) bn = Inr (Some n)" by simp
    show ?thesis
    proof (cases "wsl_client_get_roll_calls env (resolve_biennium env b) n")
      case (Inl e)
      note fr = get_roll_calls_fetch_raises [OF parse Inl]
      show ?thesis
      proof (cases "is_ValueError e")
        case True
        with fr show ?thesis using invalid_number by simp
      next
        case False
        show ?thesis
        proof (cases "is_Exception e")
          case True
          with fr False show ?thesis using unexpected [of e] by simp
        next
          case nex: False
          with fr False Inl show ?thesis using propagated [of e n] by simp
        qed
      qed
    next
      case (Inr d)
      note fd = get_roll_calls_fetched [OF parse Inr]
      show ?thesis
      proof (cases "normalize_roll_calls (int_max_str_digits env) bn (resolve_biennium env b) d")
        case (Inl e)
        then have "is_Exception e"
          using normalize_roll_calls_Inl normalization_is_Exception by blast
        with fd Inl show ?thesis
          using unexpected [of e] invalid_number by (cases "is_ValueError e") simp_all
      next
        case r: (Inr r)
        from normalize_roll_calls_Inr [OF r] fd r show ?thesis
          using no_roll_calls [of n] success [of _ n] by auto
      qed
    qed
  qed
qed

section \<open>The envelope invariant\<close>

lemma envelope_invariant_responses:
  "envelope_invariant (invalid_format_response bn)"
  "envelope_invariant (invalid_number_response bn)"
  "envelope_invariant (unexpected_response e)"
  "envelope_invariant (no_roll_calls_response bn b)"
  "envelope_invariant (success_response bn b rcs)"
  by (simp_all add: envelope_invariant_def is_mapping_def py_field_def error_metadata_def
      invalid_format_response_def invalid_number_response_def unexpected_response_def
      no_roll_calls_response_def success_response_def)

text \<open>
  C1. Whatever the bill identifier, the biennium and the collaborators, a value returned by
  the tool satisfies the envelope invariant. The tool returns a value in every case but
  one: an exception raised by the fetch that is not an \<^verbatim>\<open>Exception\<close> leaves the tool.
\<close>

theorem envelope_invariant_of_every_response:
  "case fst (get_roll_calls env bill_number biennium) of
     Inr response \<Rightarrow> envelope_invariant response
   | Inl e \<Rightarrow> \<not> is_Exception e
        \<and> (\<exists>n. wsl_client_get_roll_calls env (resolve_biennium env biennium) n = Inl e)"
  by (rule get_roll_calls_cases [of env bill_number biennium])
     (auto simp: envelope_invariant_responses)

theorem envelope_invariant_of_every_response_witness:
  "fst (get_roll_calls (env_with api_error_fetch) ''HB 1234'' None) =
     Inr (unexpected_response (Raised OtherException ''API Error''))
   \<and> envelope_invariant (unexpected_response (Raised OtherException ''API Error''))
   \<and> py_field (unexpected_response (Raised OtherException ''API Error'')) ''error'' =
       Some (PStr ''Failed to fetch roll calls: API Error'')
   \<and> py_field (unexpected_response (Raised OtherException ''API Error'')) ''data'' = None
   \<and> fst (get_roll_calls (env_with sample_fetch) ''HB 1234'' None) =
       Inr (success_response ''HB 1234'' ''2025-26'' [sample_roll_call])
   \<and> envelope_invariant (success_response ''HB 1234'' ''2025-26'' [sample_roll_call])
   \<and> py_field (success_response ''HB 1234'' ''2025-26'' [sample_roll_call]) ''error'' = None"
proof -
  have r: "resolve_biennium (env_with f) None = ''2025-26''" for f
    by (simp add: resolve_biennium_def env_with_def)
  have f: "wsl_client_get_roll_calls (env_with api_error_fetch)
      (resolve_biennium (env_with api_error_fetch) None) 1234 =
        Inl (Raised OtherException ''API Error'')"
    by (simp add: env_with_def api_error_fetch_def)
  have eq: "fst (get_roll_calls (env_with api_error_fetch) ''HB 1234'' None) =
     Inr (unexpected_response (Raised OtherException ''API Error''))"
    using get_roll_calls_fetch_raises [OF parse_HB_1234 f]
    by (simp add: is_ValueError_def is_Exception_def)
  have f': "wsl_client_get_roll_calls (env_with sample_fetch)
      (resolve_biennium (env_with sample_fetch) None) 1234 = Inr (PList [sample_record])"
    by (simp add: env_with_def sample_fetch_def)
  have n: "normalize_roll_calls m ''HB 1234'' ''2025-26'' (PList [sample_record]) =
       Inr (success_response ''HB 1234'' ''2025-26'' [sample_roll_call])" for m
    by (rule normalize_sample_record)
  have eq': "fst (get_roll_calls (env_with sample_fetch) ''HB 1234'' None) =
       Inr (success_response ''HB 1234'' ''2025-26'' [sample_roll_call])"
    using get_roll_calls_fetched [OF parse_HB_1234 f'] by (simp add: r n)
  show ?thesis
    using envelope_invariant_of_every_response
      [where env = "env_with api_error_fetch" and bill_number = "''HB 1234''" and biennium = None]
      envelope_invariant_of_every_response
      [where env = "env_with sample_fetch" and bill_number = "''HB 1234''" and biennium = None]
      eq eq'
    by (simp add: unexpected_response_def success_response_def py_field_def)
qed

section \<open>The default biennium\<close>

lemma get_roll_calls_calls:
  assumes "parse_bill_number (int_max_str_digits env) bn = Inr (Some n)"
  shows "snd (get_roll_calls env bn b) = [(resolve_biennium env b, n)]"
proof (cases "wsl_client_get_roll_calls env (resolve_biennium env b) n")
  case (Inl e)
  from get_roll_calls_fetch_raises [OF assms Inl] show ?thesis by simp
next
  case (Inr d)
  from get_roll_calls_fetched [OF assms Inr] show ?thesis by simp
qed

lemma data_biennium_of_response:
  assumes "fst (get_roll_calls env bn b) = Inr r" and "py_field r ''data'' = Some d"
  shows "py_field d ''biennium'' = Some (PStr (resolve_biennium env b))"
  using assms
  by (cases rule: get_roll_calls_cases [of env bn b])
     (auto simp: py_field_def error_metadata_def
      invalid_format_response_def invalid_number_response_def unexpected_response_def
      no_roll_calls_response_def success_response_def)

text \<open>
  C10. The empty string as biennium is treated as no biennium: the outcome and the call to
  the shim are the same, the biennium passed to the shim is the value of the resolver, and
  that value is the \<^verbatim>\<open>biennium\<close> of the data of every response that has data.
\<close>

theorem empty_biennium_is_absent_biennium:
  "get_roll_calls env bill_number (Some []) = get_roll_calls env bill_number None
   \<and> (\<forall>n. parse_bill_number (int_max_str_digits env) bill_number = Inr (Some n) \<longrightarrow>
          snd (get_roll_calls env bill_number (Some [])) = [(get_current_biennium env, n)])
   \<and> (\<forall>r d. fst (get_roll_calls env bill_number (Some [])) = Inr r \<longrightarrow>
          py_field r ''data'' = Some d \<longrightarrow>
          py_field d ''biennium'' = Some (PStr (get_current_biennium env)))"
proof -
  have r: "resolve_biennium env (Some []) = get_current_biennium env"
    by (simp add: resolve_biennium_def)
  have "get_roll_calls env bill_number (Some []) = get_roll_calls env bill_number None"
    by (simp add: get_roll_calls_def try_body_def resolve_biennium_def)
  moreover have "\<forall>n. parse_bill_number (int_max_str_digits env) bill_number = Inr (Some n) \<longrightarrow>
          snd (get_roll_calls env bill_number (Some [])) = [(get_current_biennium env, n)]"
    using get_roll_calls_calls [of env bill_number _ "Some []"] by (simp add: r)
  moreover have "\<forall>r d. fst (get_roll_calls env bill_number (Some [])) = Inr r \<longrightarrow>
          py_field r ''data'' = Some d \<longrightarrow>
          py_field d ''biennium'' = Some (PStr (get_current_biennium env))"
    using data_biennium_of_response [of env bill_number "Some []"] by (simp add: r)
  ultimately show ?thesis by blast
qed

theorem empty_biennium_is_absent_biennium_witness:
  "parse_bill_number (int_max_str_digits (env_with sample_fetch)) ''HB 1234'' = Inr (Some 1234)
   \<and> snd (get_roll_calls (env_with sample_fetch) ''HB 1234'' (Some [])) = [(''2025-26'', 1234)]
   \<and> fst (get_roll_calls (env_with sample_fetch) ''HB 1234'' (Some [])) =
       Inr (success_response ''HB 1234'' ''2025-26''
              [sample_roll_call])
   \<and> py_field (PDict [(''bill_number'', PStr ''HB 1234''), (''biennium'', PStr ''2025-26''),
                   (''roll_calls'',
                      PList [sample_roll_call])]) ''biennium'' = Some (PStr ''2025-26'')"
proof -
  have g: "get_current_biennium (env_with sample_fetch) = ''2025-26''"
    by (simp add: env_with_def)
  have f: "wsl_client_get_roll_calls (env_with sample_fetch)
      (resolve_biennium (env_with sample_fetch) None) 1234 = Inr (PList [sample_record])"
    by (simp add: env_with_def sample_fetch_def)
  have n: "normalize_roll_calls m ''HB 1234'' ''2025-26'' (PList [sample_record]) =
       Inr (success_response ''HB 1234'' ''2025-26'' [sample_roll_call])" for m
    by (rule normalize_sample_record)
  have rn: "resolve_biennium (env_with sample_fetch) None = ''2025-26''"
    by (simp add: resolve_biennium_def env_with_def)
  have none: "fst (get_roll_calls (env_with sample_fetch) ''HB 1234'' None) =
       Inr (success_response ''HB 1234'' ''2025-26''
              [sample_roll_call])"
    using get_roll_calls_fetched [OF parse_HB_1234 f] by (simp add: rn n)
  note w = empty_biennium_is_absent_biennium
    [where env = "env_with sample_fetch" and bill_number = "''HB 1234''"]
  from w have same: "get_roll_calls (env_with sample_fetch) ''HB 1234'' (Some []) =
      get_roll_calls (env_with sample_fetch) ''HB 1234'' None"
    by blast
  from w parse_HB_1234 [of "int_max_str_digits (env_with sample_fetch)"]
  have calls: "snd (get_roll_calls (env_with sample_fetch) ''HB 1234'' (Some [])) =
      [(''2025-26'', 1234)]"
    unfolding g by blast
  have some: "fst (get_roll_calls (env_with sample_fetch) ''HB 1234'' (Some [])) =
       Inr (success_response ''HB 1234'' ''2025-26''
              [sample_roll_call])"
    using none unfolding same .
  have d: "py_field (success_response ''HB 1234'' ''2025-26''
              [sample_roll_call]) ''data'' =
      Some (PDict [(''bill_number'', PStr ''HB 1234''), (''biennium'', PStr ''2025-26''),
                   (''roll_calls'',
                      PList [sample_roll_call])])"
    by (simp add: success_response_def py_field_def)
  from w some d have bien: "py_field (PDict [(''bill_number'', PStr ''HB 1234''), (''biennium'', PStr ''2025-26''),
                   (''roll_calls'',
                      PList [sample_roll_call])]) ''biennium'' = Some (PStr ''2025-26'')"
    unfolding g by blast
  show ?thesis
    using parse_HB_1234 [of "int_max_str_digits (env_with sample_fetch)"] calls some bien
    by simp
qed

section \<open>Exceptions\<close>
















section \<open>The shape of the vote payload\<close>

text \<open>
  C8. Two fetched records that agree on every field but \<^verbatim>\<open>votes\<close>, the one holding the
  bare sequence \<open>V\<close> there and the other the mapping from \<^verbatim>\<open>array_of_vote\<close> to \<open>V\<close>, are
  normalized to the same result. A record whose \<^verbatim>\<open>votes\<close> field is neither a mapping nor
  a sequence is normalized to a record whose list of votes is empty.
\<close>

theorem vote_payload_shape_tolerance:
  "((\<forall>k dflt. k \<noteq> ''votes'' \<longrightarrow> dict_get d1 k dflt = dict_get d2 k dflt) \<longrightarrow>
     dict_get d1 ''votes'' (PDict []) = PList V \<longrightarrow>
     dict_get d2 ''votes'' (PDict []) = PDict [(''array_of_vote'', PList V)] \<longrightarrow>
     format_roll_call m (PDict d1) = format_roll_call m (PDict d2))
   \<and> (\<not> is_mapping (dict_get d ''votes'' (PDict [])) \<longrightarrow>
      \<not> is_sequence (dict_get d ''votes'' (PDict [])) \<longrightarrow>
      (\<exists>r. format_roll_call m (PDict d) = Inr r \<and> py_field r ''votes'' = Some (PList [])))"
proof (intro conjI impI)
  assume "\<forall>k dflt. k \<noteq> ''votes'' \<longrightarrow> dict_get d1 k dflt = dict_get d2 k dflt"
    and "dict_get d1 ''votes'' (PDict []) = PList V"
    and "dict_get d2 ''votes'' (PDict []) = PDict [(''array_of_vote'', PList V)]"
  then show "format_roll_call m (PDict d1) = format_roll_call m (PDict d2)"
    by (simp add: format_roll_call_def votes_array_of_def)
next
  assume "\<not> is_mapping (dict_get d ''votes'' (PDict []))"
    and "\<not> is_sequence (dict_get d ''votes'' (PDict []))"
  then have "votes_array_of (dict_get d ''votes'' (PDict [])) = Inr (PList [])"
    by (cases "dict_get d ''votes'' (PDict [])")
       (simp_all add: votes_array_of_def is_mapping_def is_sequence_def)
  then show "\<exists>r. format_roll_call m (PDict d) = Inr r \<and> py_field r ''votes'' = Some (PList [])"
    by (simp add: format_roll_call_def py_field_def)
qed

theorem vote_payload_shape_tolerance_witness:
  "format_roll_call 4300 (PDict bare_votes_fields) = format_roll_call 4300 (PDict wrapped_votes_fields)
   \<and> format_roll_call 4300 (PDict wrapped_votes_fields) =
       Inr (PDict [(''sequence_number'', PInt 4),
                   (''date'', PStr []),
                   (''description'', PStr []),
                   (''yea_votes'', PInt 0),
                   (''nay_votes'', PInt 0),
                   (''absent_votes'', PInt 0),
                   (''excused_votes'', PInt 0),
                   (''votes'', PList [PDict [(''legislator_name'', PStr ''Doe, Jane''),
                                             (''vote'', PStr ''Nay''),
                                             (''district'', PStr ''2''),
                                             (''party'', PStr ''R'')]])])
   \<and> format_roll_call 4300 (PDict scalar_votes_fields) =
       Inr (PDict [(''sequence_number'', PInt 4),
                   (''date'', PStr []),
                   (''description'', PStr []),
                   (''yea_votes'', PInt 0),
                   (''nay_votes'', PInt 0),
                   (''absent_votes'', PInt 0),
                   (''excused_votes'', PInt 0),
                   (''votes'', PList [])])"
proof -
  have h1: "\<forall>k dflt. k \<noteq> ''votes'' \<longrightarrow>
      dict_get bare_votes_fields k dflt = dict_get wrapped_votes_fields k dflt"
    by (simp add: bare_votes_fields_def wrapped_votes_fields_def)
  have h2: "dict_get bare_votes_fields ''votes'' (PDict []) = PList [sample_vote]"
    by (simp add: bare_votes_fields_def)
  have h3: "dict_get wrapped_votes_fields ''votes'' (PDict []) =
      PDict [(''array_of_vote'', PList [sample_vote])]"
    by (simp add: wrapped_votes_fields_def)
  have h4: "\<not> is_mapping (dict_get scalar_votes_fields ''votes'' (PDict []))"
    "\<not> is_sequence (dict_get scalar_votes_fields ''votes'' (PDict []))"
    by (simp_all add: scalar_votes_fields_def is_mapping_def is_sequence_def)
  note w = vote_payload_shape_tolerance
    [where ?d1.0 = bare_votes_fields and ?d2.0 = wrapped_votes_fields and V = "[sample_vote]"
       and d = scalar_votes_fields and m = 4300]
  from w h1 h2 h3 have a: "format_roll_call 4300 (PDict bare_votes_fields) =
      format_roll_call 4300 (PDict wrapped_votes_fields)"
    by blast
  from w h4 obtain r where r: "format_roll_call 4300 (PDict scalar_votes_fields) = Inr r"
      "py_field r ''votes'' = Some (PList [])"
    by blast
  have b: "format_roll_call 4300 (PDict wrapped_votes_fields) =
       Inr (PDict [(''sequence_number'', PInt 4),
                   (''date'', PStr []),
                   (''description'', PStr []),
                   (''yea_votes'', PInt 0),
                   (''nay_votes'', PInt 0),
                   (''absent_votes'', PInt 0),
                   (''excused_votes'', PInt 0),
                   (''votes'', PList [PDict [(''legislator_name'', PStr ''Doe, Jane''),
                                             (''vote'', PStr ''Nay''),
                                             (''district'', PStr ''2''),
                                             (''party'', PStr ''R'')]])])"
    by code_simp
  have c: "format_roll_call 4300 (PDict scalar_votes_fields) =
       Inr (PDict [(''sequence_number'', PInt 4),
                   (''date'', PStr []),
                   (''description'', PStr []),
                   (''yea_votes'', PInt 0),
                   (''nay_votes'', PInt 0),
                   (''absent_votes'', PInt 0),
                   (''excused_votes'', PInt 0),
                   (''votes'', PList [])])"
    by code_simp
  show ?thesis using a b c r by simp
qed

section \<open>Ordering of the roll calls\<close>

lemma py_lt_int_like:
  "int_like a = Some i \<Longrightarrow> int_like b = Some j \<Longrightarrow> py_lt a b = Inr (i < j)"
  by (cases a; cases b) auto

lemma insort_lt_int_like:
  "\<forall>p \<in> set (x # ys). int_like (fst p) \<noteq> None \<Longrightarrow>
   insort_lt x ys = Inr (insort_key (\<lambda>p. int_or_zero (fst p)) x ys)"
proof (induction ys)
  case Nil
  then show ?case by simp
next
  case (Cons y ys)
  then obtain i j where ij: "int_like (fst x) = Some i" "int_like (fst y) = Some j"
    by auto
  from Cons have IH: "insort_lt x ys = Inr (insort_key (\<lambda>p. int_or_zero (fst p)) x ys)" by simp
  have k: "int_or_zero (fst x) = i" "int_or_zero (fst y) = j"
    using ij by (simp_all add: int_or_zero_def)
  show ?case
    using py_lt_int_like [OF ij(2) ij(1)] IH k by auto
qed

lemma sort_lt_int_like:
  "\<forall>p \<in> set xs. int_like (fst p) \<noteq> None \<Longrightarrow> sort_lt xs = Inr (sort_key (\<lambda>p. int_or_zero (fst p)) xs)"
proof (induction xs)
  case Nil
  then show ?case by simp
next
  case (Cons x xs)
  then have "sort_lt xs = Inr (sort_key (\<lambda>p. int_or_zero (fst p)) xs)" by simp
  moreover have "\<forall>p \<in> set (x # sort_key (\<lambda>p. int_or_zero (fst p)) xs). int_like (fst p) \<noteq> None"
    using Cons.prems by simp
  ultimately show ?case by (simp add: insort_lt_int_like)
qed

lemma map_exn_total:
  "map_exn (\<lambda>x. Inr (f x)) xs = Inr (map f xs)"
  by (induction xs) auto

lemma map_exn_cong:
  "(\<And>x. x \<in> set xs \<Longrightarrow> f x = g x) \<Longrightarrow> map_exn f xs = map_exn g xs"
  by (induction xs) (auto split: sum.splits)

lemma sort_key_decorated:
  "map snd (sort_key (\<lambda>p. g (fst p)) (map (\<lambda>x. (k x, x)) xs)) = sort_key (\<lambda>x. g (k x)) xs"
proof (induction xs)
  case Nil
  then show ?case by simp
next
  case (Cons x xs)
  have ins: "map snd (insort_key (\<lambda>p. g (fst p)) (k x, x) ps) =
      insort_key (\<lambda>x. g (k x)) x (map snd ps)"
    if "\<forall>p \<in> set ps. fst p = k (snd p)" for ps
    using that by (induction ps) auto
  have "\<forall>p \<in> set (sort_key (\<lambda>p. g (fst p)) (map (\<lambda>x. (k x, x)) xs)). fst p = k (snd p)"
    by auto
  from ins [OF this] Cons show ?case by simp
qed

lemma format_roll_call_PDict:
  "format_roll_call m (PDict d) =
     bind_exn (votes_array_of (dict_get d ''votes'' (PDict []))) (\<lambda>votes_array.
     bind_exn (py_iter votes_array) (\<lambda>votes.
     bind_exn (map_exn (format_vote m) votes) (\<lambda>votes_list.
       Inr (PDict [(''sequence_number'', dict_get d ''sequence_number'' (PInt 0)),
                   (''date'', dict_get d ''vote_date'' (PStr [])),
                   (''description'', dict_get d ''motion'' (PStr [])),
                   (''yea_votes'', dict_get d ''yea_count'' (PInt 0)),
                   (''nay_votes'', dict_get d ''nay_count'' (PInt 0)),
                   (''absent_votes'', dict_get d ''absent_count'' (PInt 0)),
                   (''excused_votes'', dict_get d ''excused_count'' (PInt 0)),
                   (''votes'', PList votes_list)]))))"
  by (simp add: format_roll_call_def)

lemma format_roll_call_not_dict:
  "\<not> is_mapping r \<Longrightarrow> \<exists>e. format_roll_call m r = Inl e"
  by (cases r) (simp_all add: format_roll_call_def is_mapping_def)

lemma format_roll_call_Inr:
  assumes "format_roll_call m r = Inr r'"
  shows "\<exists>d. r = PDict d \<and> sequence_value r' = sequence_value r"
proof (cases r)
  case (PDict d)
  from assms show ?thesis unfolding PDict format_roll_call_PDict
    by (auto simp: bind_exn_Inr_iff sequence_value_def)
qed (use assms format_roll_call_not_dict [of r m] in \<open>simp_all add: is_mapping_def\<close>)

lemma format_roll_call_Inr_dict:
  "format_roll_call m r = Inr r' \<Longrightarrow> \<exists>d'. r' = PDict d'"
  using format_roll_call_not_dict [of r m]
  by (cases r) (auto simp: format_roll_call_PDict bind_exn_Inr_iff is_mapping_def)

lemma py_sort_by_sequence_number:
  assumes dict: "\<forall>r \<in> set xs. \<exists>d. r = PDict d"
    and ints: "\<forall>r \<in> set xs. int_like (sequence_value r) \<noteq> None"
  shows "py_sort_by_key (\<lambda>x. py_get x ''sequence_number'' (PInt 0)) xs =
           Inr (sort_key sequence_key xs)"
proof -
  have "map_exn (\<lambda>x. py_get x ''sequence_number'' (PInt 0)) xs =
      map_exn (\<lambda>x. Inr (sequence_value x)) xs"
    using dict by (intro map_exn_cong) (auto simp: sequence_value_def)
  then have keys: "map_exn (\<lambda>x. py_get x ''sequence_number'' (PInt 0)) xs =
      Inr (map sequence_value xs)"
    by (simp add: map_exn_total)
  have z: "zip (map sequence_value xs) xs = map (\<lambda>x. (sequence_value x, x)) xs"
    by (induction xs) auto
  have "\<forall>p \<in> set (map (\<lambda>x. (sequence_value x, x)) xs). int_like (fst p) \<noteq> None"
    using ints by auto
  then have "sort_lt (map (\<lambda>x. (sequence_value x, x)) xs) =
      Inr (sort_key (\<lambda>p. int_or_zero (fst p)) (map (\<lambda>x. (sequence_value x, x)) xs))"
    by (rule sort_lt_int_like)
  moreover have "map snd (sort_key (\<lambda>p. int_or_zero (fst p)) (map (\<lambda>x. (sequence_value x, x)) xs)) =
      sort_key sequence_key xs"
    using sort_key_decorated [of int_or_zero sequence_value xs]
    by (simp add: sequence_key_def [abs_def])
  ultimately show ?thesis
    by (simp add: py_sort_by_key_def keys z)
qed

lemma map_exn_Inr_set:
  "map_exn f xs = Inr ys \<Longrightarrow> y \<in> set ys \<Longrightarrow> \<exists>x \<in> set xs. f x = Inr y"
  by (induction xs arbitrary: ys) (auto split: sum.splits)

lemma normalize_nonempty_list:
  assumes "records \<noteq> []"
    and "map_exn (format_roll_call m) records = Inr assembled"
    and "py_sort_by_key (\<lambda>x. py_get x ''sequence_number'' (PInt 0)) assembled = Inr out"
  shows "normalize_roll_calls m bn b (PList records) = Inr (success_response bn b out)"
  using assms by (simp add: normalize_roll_calls_def)

text \<open>
  C7. For every fetched sequence of records that is not empty and whose records are
  normalized without an exception, the sequence numbers being integers as the data model
  has them, the tool returns the success envelope, and its roll calls are the assembled
  records sorted by sequence number: in ascending order, the same records as many times,
  and those with the same sequence number in the order of the fetched input.
\<close>

theorem roll_calls_sorted_stably:
  assumes "parse_bill_number (int_max_str_digits env) bill_number = Inr (Some n)"
    and "wsl_client_get_roll_calls env (resolve_biennium env biennium) n = Inr (PList records)"
    and "records \<noteq> []"
    and "\<forall>r \<in> set records. has_integer_sequence_number r"
    and "map_exn (format_roll_call (int_max_str_digits env)) records = Inr assembled"
  shows "\<exists>out. fst (get_roll_calls env bill_number biennium) =
                 Inr (success_response bill_number (resolve_biennium env biennium) out)
             \<and> sorted (map sequence_key out)
             \<and> mset out = mset assembled
             \<and> (\<forall>k. filter (\<lambda>r. sequence_key r = k) out =
                     filter (\<lambda>r. sequence_key r = k) assembled)"
proof -
  have dict: "\<forall>r \<in> set assembled. \<exists>d. r = PDict d"
    using map_exn_Inr_set [OF assms(5)] format_roll_call_Inr_dict by blast
  have ints: "\<forall>r \<in> set assembled. int_like (sequence_value r) \<noteq> None"
  proof
    fix r' assume "r' \<in> set assembled"
    from map_exn_Inr_set [OF assms(5) this] obtain r where
      r: "r \<in> set records" "format_roll_call (int_max_str_digits env) r = Inr r'"
      by blast
    from format_roll_call_Inr [OF r(2)] obtain d where
      d: "r = PDict d" "sequence_value r' = sequence_value r"
      by blast
    from r(1) assms(4) have "has_integer_sequence_number r" by simp
    with d show "int_like (sequence_value r') \<noteq> None"
      by (simp add: has_integer_sequence_number_def sequence_value_def)
  qed
  have "normalize_roll_calls (int_max_str_digits env) bill_number
      (resolve_biennium env biennium) (PList records) =
      Inr (success_response bill_number (resolve_biennium env biennium)
             (sort_key sequence_key assembled))"
    by (rule normalize_nonempty_list [OF assms(3,5) py_sort_by_sequence_number [OF dict ints]])
  with get_roll_calls_fetched [OF assms(1,2)]
  have "fst (get_roll_calls env bill_number biennium) =
      Inr (success_response bill_number (resolve_biennium env biennium)
             (sort_key sequence_key assembled))"
    by simp
  moreover have "sorted (map sequence_key (sort_key sequence_key assembled))"
    by (rule sorted_sort_key)
  moreover have "mset (sort_key sequence_key assembled) = mset assembled"
    by simp
  moreover have "\<forall>k. filter (\<lambda>r. sequence_key r = k) (sort_key sequence_key assembled) =
      filter (\<lambda>r. sequence_key r = k) assembled"
    by (simp add: sort_key_stable)
  ultimately show ?thesis by blast
qed

theorem roll_calls_sorted_stably_witness:
  "parse_bill_number (int_max_str_digits (env_with unordered_fetch)) ''HB 1234'' = Inr (Some 1234)
   \<and> wsl_client_get_roll_calls (env_with unordered_fetch)
        (resolve_biennium (env_with unordered_fetch) None) 1234 = Inr (PList unordered_records)
   \<and> unordered_records \<noteq> []
   \<and> list_all has_integer_sequence_number unordered_records
   \<and> map_exn (format_roll_call (int_max_str_digits (env_with unordered_fetch)))
        unordered_records =
       Inr [assembled_roll_call 3 ''Third Reading'',
            assembled_roll_call 1 ''First Reading'',
            assembled_roll_call 2 ''Second Reading'']
   \<and> fst (get_roll_calls (env_with unordered_fetch) ''HB 1234'' None) =
       Inr (success_response ''HB 1234'' ''2025-26''
              [assembled_roll_call 1 ''First Reading'',
               assembled_roll_call 2 ''Second Reading'',
               assembled_roll_call 3 ''Third Reading''])
   \<and> map sequence_key [assembled_roll_call 1 ''First Reading'',
                        assembled_roll_call 2 ''Second Reading'',
                        assembled_roll_call 3 ''Third Reading''] = [1, 2, 3]
   \<and> fst (get_roll_calls (env_with tied_fetch) ''HB 1234'' None) =
       Inr (success_response ''HB 1234'' ''2025-26''
              [assembled_roll_call 1 ''Motion B'',
               assembled_roll_call 2 ''Motion A'',
               assembled_roll_call 2 ''Motion C''])
   \<and> filter (\<lambda>r. sequence_key r = 2)
        [assembled_roll_call 1 ''Motion B'',
         assembled_roll_call 2 ''Motion A'',
         assembled_roll_call 2 ''Motion C''] =
       [assembled_roll_call 2 ''Motion A'', assembled_roll_call 2 ''Motion C'']"
proof -
  have r: "resolve_biennium (env_with f) None = ''2025-26''" for f
    by (simp add: resolve_biennium_def env_with_def)
  have p: "parse_bill_number (int_max_str_digits (env_with f)) ''HB 1234'' = Inr (Some 1234)" for f
    by (rule parse_HB_1234)
  have f1: "wsl_client_get_roll_calls (env_with unordered_fetch)
        (resolve_biennium (env_with unordered_fetch) None) 1234 = Inr (PList unordered_records)"
    by (simp add: env_with_def unordered_fetch_def)
  have f2: "wsl_client_get_roll_calls (env_with tied_fetch)
        (resolve_biennium (env_with tied_fetch) None) 1234 = Inr (PList tied_records)"
    by (simp add: env_with_def tied_fetch_def)
  have ne: "unordered_records \<noteq> []" "tied_records \<noteq> []"
    by (simp_all add: unordered_records_def tied_records_def)
  have i1: "\<forall>r \<in> set unordered_records. has_integer_sequence_number r"
    by (simp add: unordered_records_def roll_call_record_def has_integer_sequence_number_def)
  have i2: "\<forall>r \<in> set tied_records. has_integer_sequence_number r"
    by (simp add: tied_records_def roll_call_record_def has_integer_sequence_number_def)
  have a1: "map_exn (format_roll_call (int_max_str_digits (env_with unordered_fetch)))
        unordered_records =
       Inr [assembled_roll_call 3 ''Third Reading'',
            assembled_roll_call 1 ''First Reading'',
            assembled_roll_call 2 ''Second Reading'']"
    by code_simp
  have a2: "map_exn (format_roll_call (int_max_str_digits (env_with tied_fetch)))
        tied_records =
       Inr [assembled_roll_call 2 ''Motion A'',
            assembled_roll_call 1 ''Motion B'',
            assembled_roll_call 2 ''Motion C'']"
    by code_simp
  have k: "sequence_key (assembled_roll_call s m) = s" for s m
    by (simp add: sequence_key_def sequence_value_def assembled_roll_call_def int_or_zero_def)
  have inj: "assembled_roll_call s m = assembled_roll_call s' m' \<longleftrightarrow> s = s' \<and> m = m'"
    for s m s' m'
    by (auto simp: assembled_roll_call_def)
  from roll_calls_sorted_stably [OF p f1 ne(1) i1 a1] obtain out1 where
    o1: "fst (get_roll_calls (env_with unordered_fetch) ''HB 1234'' None) =
           Inr (success_response ''HB 1234'' ''2025-26'' out1)"
      "sorted (map sequence_key out1)"
      "mset out1 = mset [assembled_roll_call 3 ''Third Reading'',
            assembled_roll_call 1 ''First Reading'',
            assembled_roll_call 2 ''Second Reading'']"
    unfolding r by blast
  from roll_calls_sorted_stably [OF p f2 ne(2) i2 a2] obtain out2 where
    o2: "fst (get_roll_calls (env_with tied_fetch) ''HB 1234'' None) =
           Inr (success_response ''HB 1234'' ''2025-26'' out2)"
      "sorted (map sequence_key out2)"
      "\<forall>k. filter (\<lambda>r. sequence_key r = k) out2 =
           filter (\<lambda>r. sequence_key r = k) [assembled_roll_call 2 ''Motion A'',
            assembled_roll_call 1 ''Motion B'',
            assembled_roll_call 2 ''Motion C'']"
    unfolding r by blast
  have e1: "fst (get_roll_calls (env_with unordered_fetch) ''HB 1234'' None) =
       Inr (success_response ''HB 1234'' ''2025-26''
              [assembled_roll_call 1 ''First Reading'',
               assembled_roll_call 2 ''Second Reading'',
               assembled_roll_call 3 ''Third Reading''])"
    by code_simp
  have e2: "fst (get_roll_calls (env_with tied_fetch) ''HB 1234'' None) =
       Inr (success_response ''HB 1234'' ''2025-26''
              [assembled_roll_call 1 ''Motion B'',
               assembled_roll_call 2 ''Motion A'',
               assembled_roll_call 2 ''Motion C''])"
    by code_simp
  from o1(1) e1 have out1: "out1 = [assembled_roll_call 1 ''First Reading'',
               assembled_roll_call 2 ''Second Reading'',
               assembled_roll_call 3 ''Third Reading'']"
    by (simp add: success_response_def)
  from o2(1) e2 have out2: "out2 = [assembled_roll_call 1 ''Motion B'',
               assembled_roll_call 2 ''Motion A'',
               assembled_roll_call 2 ''Motion C'']"
    by (simp add: success_response_def)
  from o2(3) have st: "filter (\<lambda>r. sequence_key r = 2) out2 =
       [assembled_roll_call 2 ''Motion A'', assembled_roll_call 2 ''Motion C'']"
    by (simp add: k)
  from i1 have i1': "list_all has_integer_sequence_number unordered_records"
    by (simp add: list_all_iff)
  show ?thesis
    using p [of unordered_fetch] f1 ne(1) i1' a1 o1(1) o2(1) st
    unfolding out1 out2 by (simp add: k)
qed

section \<open>Canonicalization of the bill identifier\<close>

lemma last_split_ws:
  assumes "s = [] \<or> \<not> py_isspace (last s)"
    and "cur @ s \<noteq> []"
    and "\<forall>c \<in> set cur. \<not> py_isspace c"
  shows "last (split_ws cur s) = rev (takeWhile (\<lambda>c. \<not> py_isspace c) (rev (cur @ s)))"
  using assms
proof (induction s arbitrary: cur)
  case Nil
  then have "takeWhile (\<lambda>c. \<not> py_isspace c) (rev cur) = rev cur"
    by (simp add: takeWhile_eq_all_conv)
  then have "rev (takeWhile (\<lambda>c. \<not> py_isspace c) (rev (cur @ []))) = cur"
    by (metis append_Nil2 rev_rev_ident)
  moreover from Nil have "split_ws cur [] = [cur]" by simp
  ultimately show ?case by (simp only: last.simps simp_thms if_True)
next
  case (Cons c cs)
  show ?case
  proof (cases "py_isspace c")
    case True
    with Cons.prems(1) have cs: "cs \<noteq> []" "\<not> py_isspace (last cs)"
      by (auto split: if_splits)
    then have ex: "\<exists>c \<in> set cs. \<not> py_isspace c" using last_in_set by blast
    have IH: "last (split_ws [] cs) = rev (takeWhile (\<lambda>c. \<not> py_isspace c) (rev cs))"
      using Cons.IH [of "[]"] cs by simp
    have ne: "split_ws [] cs \<noteq> []" using ex by (intro split_ws_nonempty) blast
    have tw: "takeWhile (\<lambda>c. \<not> py_isspace c) (rev cs @ c # rev cur) =
        takeWhile (\<lambda>c. \<not> py_isspace c) (rev cs)"
      using True by (simp add: takeWhile_tail)
    show ?thesis using True IH ne tw by simp
  next
    case False
    have "last (split_ws (cur @ [c]) cs) =
        rev (takeWhile (\<lambda>c. \<not> py_isspace c) (rev ((cur @ [c]) @ cs)))"
      using Cons.prems False by (intro Cons.IH) auto
    then show ?thesis using False by simp
  qed
qed

lemma last_token_of_stripped:
  assumes "CHR '' '' \<in> set (py_strip s)"
  shows "last (py_split (py_strip s)) = last_token_spec (py_strip s)"
proof -
  from assms have ne: "py_strip s \<noteq> []" by auto
  then have "\<not> py_isspace (last (py_strip s))" by (rule py_strip_last)
  with ne show ?thesis
    using last_split_ws [of "py_strip s" "[]"]
    by (simp add: py_split_def last_token_spec_def)
qed

lemma foldl_decimal:
  "foldl (\<lambda>acc c. 10 * acc + digit_value c) a s = a * 10 ^ length s + decimal_spec s"
  by (induction s arbitrary: a) (simp_all add: algebra_simps)

lemma bill_num_str_of_spec:
  "bill_num_str_of s =
     Inr (filter py_isdigit
            (if CHR '' '' \<in> set (trim_spec s) then last_token_spec (trim_spec s) else trim_spec s))"
  by (simp add: bill_num_str_of_eq last_token_of_stripped py_strip_dropWhile [symmetric]
      trim_spec_def)

lemma length_digits_le:
  "length (filter py_isdigit
            (if CHR '' '' \<in> set (trim_spec s) then last_token_spec (trim_spec s) else trim_spec s))
     \<le> length s"
proof -
  have t: "length (trim_spec s) \<le> length s"
    unfolding trim_spec_def
    by (metis length_dropWhile_le length_rev order_trans)
  have l: "length (last_token_spec (trim_spec s)) \<le> length (trim_spec s)"
    unfolding last_token_spec_def
    by (metis length_rev length_takeWhile_le)
  show ?thesis using t l
    by (auto intro: order_trans [OF length_filter_le])
qed

lemma parse_refines_spec:
  assumes "parse_bill_number m s = Inr (Some n)"
  shows "canonical_bill_number_spec s = Some n"
  using assms
  by (auto simp: parse_bill_number_def bill_num_str_of_spec canonical_bill_number_spec_def
      Let_def py_int_def foldl_decimal split: if_splits)

lemma spec_refines_parse:
  assumes "canonical_bill_number_spec s = Some n"
    and "m = 0 \<or> length s \<le> max 640 m"
  shows "parse_bill_number m s = Inr (Some n)"
proof -
  let ?ds = "filter py_isdigit
            (if CHR '' '' \<in> set (trim_spec s) then last_token_spec (trim_spec s) else trim_spec s)"
  from assms(1) have ds: "?ds \<noteq> []" "list_all py_isdecimal ?ds" "n = decimal_spec ?ds"
    by (auto simp: canonical_bill_number_spec_def Let_def split: if_splits)
  from assms(2) length_digits_le [of s]
  have lim: "\<not> (0 < m \<and> m < length ?ds \<and> 640 < length ?ds)"
    by (auto simp: max_def split: if_splits)
  have "py_int m ?ds = Inr n"
    using ds lim unfolding py_int_def by (simp add: foldl_decimal)
  then show ?thesis
    using ds(1) by (simp add: parse_bill_number_def bill_num_str_of_spec)
qed

lemma parse_three_forms:
  "parse_bill_number m ''SB 1234'' = Inr (Some 1234)"
  "parse_bill_number m ''1234'' = Inr (Some 1234)"
proof -
  have "bill_num_str_of ''SB 1234'' = Inr ''1234''" by code_simp
  then show "parse_bill_number m ''SB 1234'' = Inr (Some 1234)"
    by (simp add: parse_bill_number_def py_int_def py_isdecimal_def digit_value_def)
  have "bill_num_str_of ''1234'' = Inr ''1234''" by code_simp
  then show "parse_bill_number m ''1234'' = Inr (Some 1234)"
    by (simp add: parse_bill_number_def py_int_def py_isdecimal_def digit_value_def)
qed

text \<open>
  C2. The bill number the tool computes is the one of the reference definition
  \<^const>\<open>canonical_bill_number_spec\<close>: whenever the tool obtains a number, the reference
  definition gives the same one, and the shim is called with it; conversely, what the
  reference definition gives is what the tool obtains, as long as the input is no longer
  than the interpreter's limit on the digits of a conversion. The inputs \<^verbatim>\<open>HB 1234\<close>,
  \<^verbatim>\<open>SB 1234\<close> and \<^verbatim>\<open>1234\<close> all give 1234, and the shim is called with 1234.
\<close>

theorem canonicalization_refines_spec:
  "(parse_bill_number (int_max_str_digits env) bill_number = Inr (Some n) \<longrightarrow>
      canonical_bill_number_spec bill_number = Some n
      \<and> snd (get_roll_calls env bill_number biennium) = [(resolve_biennium env biennium, n)])
   \<and> (canonical_bill_number_spec bill_number = Some n \<longrightarrow>
      (int_max_str_digits env = 0 \<or> length bill_number \<le> max 640 (int_max_str_digits env)) \<longrightarrow>
      parse_bill_number (int_max_str_digits env) bill_number = Inr (Some n))
   \<and> parse_bill_number (int_max_str_digits env) ''HB 1234'' = Inr (Some 1234)
   \<and> parse_bill_number (int_max_str_digits env) ''SB 1234'' = Inr (Some 1234)
   \<and> parse_bill_number (int_max_str_digits env) ''1234'' = Inr (Some 1234)
   \<and> snd (get_roll_calls env ''HB 1234'' biennium) = [(resolve_biennium env biennium, 1234)]
   \<and> snd (get_roll_calls env ''SB 1234'' biennium) = [(resolve_biennium env biennium, 1234)]
   \<and> snd (get_roll_calls env ''1234'' biennium) = [(resolve_biennium env biennium, 1234)]"
  using parse_refines_spec [of "int_max_str_digits env" bill_number n]
    spec_refines_parse [of bill_number n "int_max_str_digits env"]
    get_roll_calls_calls [of env bill_number n biennium]
    get_roll_calls_calls [OF parse_HB_1234, of env biennium]
    get_roll_calls_calls [OF parse_three_forms(1), of env biennium]
    get_roll_calls_calls [OF parse_three_forms(2), of env biennium]
    parse_HB_1234 [of "int_max_str_digits env"]
    parse_three_forms [of "int_max_str_digits env"]
  by blast

theorem canonicalization_refines_spec_witness:
  "parse_bill_number (int_max_str_digits (env_with empty_fetch)) ''  sb   56x78 '' =
     Inr (Some 5678)
   \<and> canonical_bill_number_spec ''  sb   56x78 '' = Some 5678
   \<and> length ''  sb   56x78 '' \<le> max 640 (int_max_str_digits (env_with empty_fetch))
   \<and> snd (get_roll_calls (env_with empty_fetch) ''  sb   56x78 '' (Some ''2023-24'')) =
       [(''2023-24'', 5678)]"
proof -
  have c: "canonical_bill_number_spec ''  sb   56x78 '' = Some 5678"
    by code_simp
  have l: "int_max_str_digits (env_with empty_fetch) = 0
      \<or> length ''  sb   56x78 '' \<le> max 640 (int_max_str_digits (env_with empty_fetch))"
    by (simp add: env_with_def)
  have r: "resolve_biennium (env_with empty_fetch) (Some ''2023-24'') = ''2023-24''"
    by (simp add: resolve_biennium_def)
  note w = canonicalization_refines_spec
    [where env = "env_with empty_fetch" and bill_number = "''  sb   56x78 ''" and n = 5678
       and biennium = "Some ''2023-24''"]
  from w c l have p: "parse_bill_number (int_max_str_digits (env_with empty_fetch))
      ''  sb   56x78 '' = Inr (Some 5678)"
    by blast
  with w have s: "snd (get_roll_calls (env_with empty_fetch) ''  sb   56x78 ''
      (Some ''2023-24'')) = [(resolve_biennium (env_with empty_fetch) (Some ''2023-24''), 5678)]"
    by blast
  show ?thesis using p c s unfolding r by (simp add: env_with_def)
qed

end
